theory Spec2Isabelle
  imports Complex_Main
begin

section \<open>The cycle solver of \<^verbatim>\<open>backend/motor_termodinamico.py\<close>\<close>

text \<open>
  Numbers are Python floats in the source; they are modelled as \<^typ>\<open>real\<close>, so
  every statement below is about the exact arithmetic of the formulas, not about
  rounding. A pint quantity is modelled by its magnitude in the unit the source gives
  it, with each conversion written out: \<^verbatim>\<open>Q_(t, "degC").to("kelvin")\<close> adds 273.15,
  \<^verbatim>\<open>.to('kW')\<close> of a power in W divides by 1000.

  The exceptions the code can raise on numeric arguments: CoolProp's \<^verbatim>\<open>PropsSI\<close>
  raises \<^verbatim>\<open>ValueError\<close> when it cannot resolve a query; a float division by zero
  raises \<^verbatim>\<open>ZeroDivisionError\<close>; a missing dictionary key raises \<^verbatim>\<open>KeyError\<close>.
  The source defines no exception class of its own.
\<close>

datatype error = ValueError | ZeroDivisionError | KeyError

text \<open>
  \<^verbatim>\<open>CoolProp.CoolProp.PropsSI(output, name1, value1, name2, value2, fluid)\<close> is an
  external library. It is a parameter of the model: a function that answers a query
  with \<open>Some v\<close>, or with \<open>None\<close> where the library raises.
\<close>

type_synonym provider = "string \<Rightarrow> string \<Rightarrow> real \<Rightarrow> string \<Rightarrow> real \<Rightarrow> string \<Rightarrow> real option"

definition PropsSI :: "provider \<Rightarrow> string \<Rightarrow> string \<Rightarrow> real \<Rightarrow> string \<Rightarrow> real \<Rightarrow> string \<Rightarrow> error + real" where
  "PropsSI CP out n1 v1 n2 v2 fluid =
     (case CP out n1 v1 n2 v2 fluid of None \<Rightarrow> Inl ValueError | Some v \<Rightarrow> Inr v)"

text \<open>Sequencing of steps that may raise: the first exception ends the computation.\<close>

definition bind_err :: "error + 'a \<Rightarrow> ('a \<Rightarrow> error + 'b) \<Rightarrow> error + 'b" where
  "bind_err m f = (case m of Inl e \<Rightarrow> Inl e | Inr x \<Rightarrow> f x)"

definition py_div :: "real \<Rightarrow> real \<Rightarrow> error + real" where
  "py_div a b = (if b = 0 then Inl ZeroDivisionError else Inr (a / b))"

definition dict_get :: "('k \<rightharpoonup> 'v) \<Rightarrow> 'k \<Rightarrow> error + 'v" where
  "dict_get d k = (case d k of None \<Rightarrow> Inl KeyError | Some v \<Rightarrow> Inr v)"

text \<open>
  One entry of \<^verbatim>\<open>resultados["states"]\<close>: the dictionary
  \<^verbatim>\<open>{"P": .., "T": .., "h": .., "s": .., "desc": ..}\<close>.
\<close>

record estado_termo =
  st_P :: real
  st_T :: real
  st_h :: real
  st_s :: real
  st_desc :: string

text \<open>
  The returned dictionary \<^verbatim>\<open>{"scalar": {...}, "states": {1: .., 2: .., 3: .., 4: ..}}\<close>.
  The two inner dictionaries are maps, so that their key sets can be stated.
\<close>

record resultados =
  scalar :: "string \<rightharpoonup> real"
  states :: "nat \<rightharpoonup> estado_termo"

definition simular_refrigerador ::
  "provider \<Rightarrow> real \<Rightarrow> real \<Rightarrow> real \<Rightarrow> real \<Rightarrow> real \<Rightarrow> error + resultados" where
  "simular_refrigerador CP T_ambiente_C T_interior_C Flujo_masico_kg_s eta_isentropica Delta_T_cond_C =
    (let refrigerante = ''R134a'';
         T_ambiente = T_ambiente_C + 273.15;
         T_interior = T_interior_C + 273.15;
         Flujo_masico = Flujo_masico_kg_s;
         Delta_T_cond = Delta_T_cond_C
     in
     bind_err (PropsSI CP ''H'' ''T'' T_interior ''Q'' 1 refrigerante) (\<lambda>h1.
     bind_err (PropsSI CP ''S'' ''T'' T_interior ''Q'' 1 refrigerante) (\<lambda>s1.
     let T_condensacion = T_ambiente + Delta_T_cond in
     bind_err (PropsSI CP ''P'' ''T'' T_condensacion ''Q'' 0 refrigerante) (\<lambda>P_condensacion.
     let P2 = P_condensacion in
     bind_err (PropsSI CP ''H'' ''P'' P2 ''S'' s1 refrigerante) (\<lambda>h2_ideal.
     bind_err (py_div (h2_ideal - h1) eta_isentropica) (\<lambda>dh.
     let h2 = h1 + dh;
         Trabajo_necesario = Flujo_masico * (h2 - h1)
     in
     bind_err (PropsSI CP ''S'' ''P'' P2 ''H'' h2 refrigerante) (\<lambda>s2.
     let P3 = P2 in
     bind_err (PropsSI CP ''H'' ''P'' P3 ''Q'' 0 refrigerante) (\<lambda>h3.
     bind_err (PropsSI CP ''T'' ''P'' P3 ''Q'' 0 refrigerante) (\<lambda>T3.
     let h4 = h3 in
     bind_err (PropsSI CP ''P'' ''T'' T_interior ''Q'' 1 refrigerante) (\<lambda>P4.
     bind_err (PropsSI CP ''Q'' ''P'' P4 ''H'' h4 refrigerante) (\<lambda>x4.
     let Q_evap = Flujo_masico * (h1 - h4) in
     bind_err (py_div Q_evap Trabajo_necesario) (\<lambda>COP.
     bind_err (PropsSI CP ''T'' ''H'' h2 ''P'' P2 refrigerante) (\<lambda>T_descarga.
     bind_err (PropsSI CP ''S'' ''P'' P3 ''Q'' 0 refrigerante) (\<lambda>s3.
     bind_err (PropsSI CP ''S'' ''P'' P4 ''H'' h4 refrigerante) (\<lambda>s4.
     bind_err (PropsSI CP ''T'' ''H'' h2 ''P'' P2 refrigerante) (\<lambda>T2_real.
     Inr \<lparr>scalar =
            [''Trabajo_Compresor_kW'' \<mapsto> Trabajo_necesario / 1000,
             ''Calor_Extraido_kW'' \<mapsto> Q_evap / 1000,
             ''COP'' \<mapsto> COP,
             ''Calidad_Evap'' \<mapsto> x4,
             ''Temp_Descarga_C'' \<mapsto> T_descarga - 273.15,
             ''Flujo_Masico_kg_s'' \<mapsto> Flujo_masico],
          states =
            [1 \<mapsto> \<lparr>st_P = P4, st_T = T_interior, st_h = h1, st_s = s1,
                    st_desc = ''Entrada Compresor''\<rparr>,
             2 \<mapsto> \<lparr>st_P = P2, st_T = T2_real, st_h = h2, st_s = s2,
                    st_desc = ''Entrada Condensador''\<rparr>,
             3 \<mapsto> \<lparr>st_P = P3, st_T = T3, st_h = h3, st_s = s3,
                    st_desc = ''Salida Condensador''\<rparr>,
             4 \<mapsto> \<lparr>st_P = P4, st_T = T_interior, st_h = h4, st_s = s4,
                    st_desc = ''Entrada Evaporador''\<rparr>]\<rparr>))))))))))))))))"

text \<open>
  A stand-in for the property library, used to run the solver on concrete inputs: a
  fluid with linear property curves. Saturation pressure \<open>1000 T\<close>; saturated-liquid
  enthalpy \<open>200000 + 1500 (T - 273.15)\<close>, saturated-vapour enthalpy
  \<open>400000 + 500 (T - 273.15)\<close>; entropy 1000 on the liquid line and 1700 on the
  vapour line; off the vapour line, enthalpy and entropy are tied by \<open>dh = 300 ds\<close>
  and the temperature by \<open>dh = 1000 dT\<close>. A query it does not know fails.
\<close>

definition h_liq :: "real \<Rightarrow> real" where
  "h_liq T = 200000 + 1500 * (T - 273.15)"

definition h_vap :: "real \<Rightarrow> real" where
  "h_vap T = 400000 + 500 * (T - 273.15)"

definition CP_lineal :: provider where
  "CP_lineal out n1 v1 n2 v2 fluid =
     (if fluid \<noteq> ''R134a'' then None
      else if (out, n1, n2) = (''H'', ''T'', ''Q'') then Some (h_liq v1 + v2 * (h_vap v1 - h_liq v1))
      else if (out, n1, n2) = (''S'', ''T'', ''Q'') then Some (1000 + 700 * v2)
      else if (out, n1, n2) = (''P'', ''T'', ''Q'') then Some (1000 * v1)
      else if (out, n1, n2) = (''H'', ''P'', ''S'') then Some (h_vap (v1 / 1000) + 300 * (v2 - 1700))
      else if (out, n1, n2) = (''S'', ''P'', ''H'') then Some (1700 + (v2 - h_vap (v1 / 1000)) / 300)
      else if (out, n1, n2) = (''H'', ''P'', ''Q'') then
        Some (h_liq (v1 / 1000) + v2 * (h_vap (v1 / 1000) - h_liq (v1 / 1000)))
      else if (out, n1, n2) = (''T'', ''P'', ''Q'') then Some (v1 / 1000)
      else if (out, n1, n2) = (''S'', ''P'', ''Q'') then Some (1000 + 700 * v2)
      else if (out, n1, n2) = (''Q'', ''P'', ''H'') then
        Some ((v2 - h_liq (v1 / 1000)) / (h_vap (v1 / 1000) - h_liq (v1 / 1000)))
      else if (out, n1, n2) = (''T'', ''H'', ''P'') then Some (v2 / 1000 + (v1 - h_vap (v2 / 1000)) / 1000)
      else None)"

text \<open>
  The dictionaries the solver returns over \<open>CP_lineal\<close> at three inputs: the nominal
  point (ambient 20, interior 4, flow 0.08, efficiency 0.75, \<open>\<Delta>T\<close> 15), an inverted
  temperature lift (ambient -30, so that the condenser at -15 is colder than the
  evaporator at 4), and an efficiency of 2.
\<close>

definition resultado_nominal :: resultados where
  "resultado_nominal =
     \<lparr>scalar =
        [''Trabajo_Compresor_kW'' \<mapsto> 124 / 75,
         ''Calor_Extraido_kW'' \<mapsto> 299 / 25,
         ''COP'' \<mapsto> 897 / 124,
         ''Calidad_Evap'' \<mapsto> 93 / 392,
         ''Temp_Descarga_C'' \<mapsto> 241 / 6,
         ''Flujo_Masico_kg_s'' \<mapsto> 2 / 25],
      states =
        [1 \<mapsto> \<lparr>st_P = 277150, st_T = 5543 / 20, st_h = 402000, st_s = 1700,
                st_desc = ''Entrada Compresor''\<rparr>,
         2 \<mapsto> \<lparr>st_P = 308150, st_T = 18799 / 60, st_h = 1268000 / 3, st_s = 15455 / 9,
                st_desc = ''Entrada Condensador''\<rparr>,
         3 \<mapsto> \<lparr>st_P = 308150, st_T = 6163 / 20, st_h = 252500, st_s = 1000,
                st_desc = ''Salida Condensador''\<rparr>,
         4 \<mapsto> \<lparr>st_P = 277150, st_T = 5543 / 20, st_h = 252500, st_s = 3605 / 3,
                st_desc = ''Entrada Evaporador''\<rparr>]\<rparr>"

definition resultado_lift_invertido :: resultados where
  "resultado_lift_invertido =
     \<lparr>scalar =
        [''Trabajo_Compresor_kW'' \<mapsto> - (76 / 75),
         ''Calor_Extraido_kW'' \<mapsto> 449 / 25,
         ''COP'' \<mapsto> - (1347 / 76),
         ''Calidad_Evap'' \<mapsto> - (57 / 392),
         ''Temp_Descarga_C'' \<mapsto> - (109 / 6),
         ''Flujo_Masico_kg_s'' \<mapsto> 2 / 25],
      states =
        [1 \<mapsto> \<lparr>st_P = 277150, st_T = 5543 / 20, st_h = 402000, st_s = 1700,
                st_desc = ''Entrada Compresor''\<rparr>,
         2 \<mapsto> \<lparr>st_P = 258150, st_T = 15299 / 60, st_h = 1168000 / 3, st_s = 15205 / 9,
                st_desc = ''Entrada Condensador''\<rparr>,
         3 \<mapsto> \<lparr>st_P = 258150, st_T = 5163 / 20, st_h = 177500, st_s = 1000,
                st_desc = ''Salida Condensador''\<rparr>,
         4 \<mapsto> \<lparr>st_P = 277150, st_T = 5543 / 20, st_h = 177500, st_s = 2855 / 3,
                st_desc = ''Entrada Evaporador''\<rparr>]\<rparr>"

definition resultado_eta_2 :: resultados where
  "resultado_eta_2 =
     \<lparr>scalar =
        [''Trabajo_Compresor_kW'' \<mapsto> 31 / 50,
         ''Calor_Extraido_kW'' \<mapsto> 299 / 25,
         ''COP'' \<mapsto> 598 / 31,
         ''Calidad_Evap'' \<mapsto> 93 / 392,
         ''Temp_Descarga_C'' \<mapsto> 109 / 4,
         ''Flujo_Masico_kg_s'' \<mapsto> 2 / 25],
      states =
        [1 \<mapsto> \<lparr>st_P = 277150, st_T = 5543 / 20, st_h = 402000, st_s = 1700,
                st_desc = ''Entrada Compresor''\<rparr>,
         2 \<mapsto> \<lparr>st_P = 308150, st_T = 1502 / 5, st_h = 409750, st_s = 10045 / 6,
                st_desc = ''Entrada Condensador''\<rparr>,
         3 \<mapsto> \<lparr>st_P = 308150, st_T = 6163 / 20, st_h = 252500, st_s = 1000,
                st_desc = ''Salida Condensador''\<rparr>,
         4 \<mapsto> \<lparr>st_P = 277150, st_T = 5543 / 20, st_h = 252500, st_s = 3605 / 3,
                st_desc = ''Entrada Evaporador''\<rparr>]\<rparr>"

section \<open>The telemetry generator of \<^verbatim>\<open>scripts/generar_datos.py\<close>\<close>

text \<open>
  The source draws its random numbers from the functions of Python's \<^verbatim>\<open>random\<close>
  module, which share one hidden generator of the process. The module is standard
  library, so it is a parameter of the model: a type \<open>'g\<close> of generator states with
  \<^verbatim>\<open>random.random()\<close> and \<^verbatim>\<open>random.gauss(mu, sigma)\<close> as functions that return
  the variate and the next state. \<^verbatim>\<open>random.uniform(a, b)\<close> is
  \<^verbatim>\<open>a + (b - a) * random()\<close>, as the library defines it. The generator state is
  threaded through every function that draws.
\<close>

record 'g random_module =
  rnd_random :: "'g \<Rightarrow> real \<times> 'g"
  rnd_gauss :: "real \<Rightarrow> real \<Rightarrow> 'g \<Rightarrow> real \<times> 'g"

definition rnd_uniform :: "'g random_module \<Rightarrow> real \<Rightarrow> real \<Rightarrow> 'g \<Rightarrow> real \<times> 'g" where
  "rnd_uniform R a b g = (case rnd_random R g of (u, g') \<Rightarrow> (a + (b - a) * u, g'))"

text \<open>
  A naive \<^verbatim>\<open>datetime\<close> is modelled by its whole seconds since 0001-01-01 00:00:00
  (microseconds reach no output). \<^verbatim>\<open>tm_yday\<close> follows the standard library's
  conversion of a day number to a date (cycles of 400, 100, 4 and 1 years).
\<close>

type_synonym datetime = int

definition hour :: "datetime \<Rightarrow> int" where
  "hour t = (t div 3600) mod 24"

definition tm_yday :: "datetime \<Rightarrow> int" where
  "tm_yday t =
     (let n = t div 86400;
          n100 = (n mod 146097) div 36524;
          r100 = (n mod 146097) mod 36524;
          n1 = (r100 mod 1461) div 365;
          r1 = (r100 mod 1461) mod 365
      in if n1 = 4 \<or> n100 = 4 then 366 else r1 + 1)"

text \<open>
  \<^verbatim>\<open>round(x, n)\<close>: the nearest multiple of \<open>10\<^sup>-\<^sup>n\<close>, a tie going to the even
  neighbour.
\<close>

definition round_half_even :: "real \<Rightarrow> int" where
  "round_half_even x =
     (let f = \<lfloor>x\<rfloor>; d = x - of_int f
      in if d < 1 / 2 then f else if 1 / 2 < d then f + 1 else if even f then f else f + 1)"

definition py_round :: "real \<Rightarrow> nat \<Rightarrow> real" where
  "py_round x n = of_int (round_half_even (x * 10 ^ n)) / 10 ^ n"

definition DIAS_SIMULACION :: nat where
  "DIAS_SIMULACION = 7"

definition FRECUENCIA_HORAS :: nat where
  "FRECUENCIA_HORAS = 1"

record params_equipo =
  t_interior :: real
  flujo :: real

text \<open>The dictionary \<^verbatim>\<open>EQUIPOS\<close>, in its insertion order, which is the iteration order.\<close>

definition EQUIPOS :: "(string \<times> params_equipo) list" where
  "EQUIPOS =
     [(''CAMARA_01_CARNES'', \<lparr>t_interior = -18, flujo = 0.12\<rparr>),
      (''CAMARA_02_LACTEOS'', \<lparr>t_interior = 4, flujo = 0.08\<rparr>),
      (''CAMARA_03_VERDURAS'', \<lparr>t_interior = 4, flujo = 0.08\<rparr>)]"

definition calcular_temperatura_ambiente ::
  "'g random_module \<Rightarrow> int \<Rightarrow> int \<Rightarrow> 'g \<Rightarrow> real \<times> 'g" where
  "calcular_temperatura_ambiente R hora dia_del_anio g =
     (let temp_base_invierno = -5;
          temp_base_verano = 10;
          factor_estacion = 0.5 * (1 + (of_int dia_del_anio - 172) / 172);
          temp_base = temp_base_invierno + (temp_base_verano - temp_base_invierno) * factor_estacion;
          variacion_diurna = 4 * (1 - \<bar>of_int hora - 15\<bar> / 12)
      in case rnd_gauss R 0 1.5 g of
           (ruido, g') \<Rightarrow> (py_round (temp_base + variacion_diurna + ruido) 1, g'))"

definition simular_evento_apertura_puerta :: "'g random_module \<Rightarrow> 'g \<Rightarrow> real \<times> 'g" where
  "simular_evento_apertura_puerta R g =
     (case rnd_random R g of
        (prob_apertura, g') \<Rightarrow>
          if prob_apertura < 0.05 then rnd_uniform R 3 8 g'
          else if prob_apertura < 0.20 then rnd_uniform R 1 3 g'
          else (0, g'))"

text \<open>
  Lines 98 to 113 of \<^verbatim>\<open>generar_datos\<close>: the condenser \<open>\<Delta>T\<close> and the efficiency that
  tick \<open>i\<close> passes to the solver, as \<open>((delta_t_cond, eta), g')\<close>.
\<close>

definition parametros_operacion :: "'g random_module \<Rightarrow> nat \<Rightarrow> 'g \<Rightarrow> (real \<times> real) \<times> 'g" where
  "parametros_operacion R i g =
     (let delta_t_cond_base = 15 in
      case simular_evento_apertura_puerta R g of
        (apertura, g1) \<Rightarrow>
          let delta_t_cond0 = delta_t_cond_base + apertura;
              dias_restantes = int DIAS_SIMULACION - int (i div 24);
              delta_t_cond =
                (if dias_restantes \<le> 2
                 then delta_t_cond0 * (1 + of_int (2 - dias_restantes) * 0.7)
                 else delta_t_cond0);
              eta_base = 0.75
          in case rnd_uniform R (-0.03) 0.02 g1 of
               (variacion_eta, g2) \<Rightarrow>
                 ((delta_t_cond, max 0.60 (min 0.85 (eta_base + variacion_eta))), g2))"

text \<open>Lines 128 to 133: the operating state from the condenser \<open>\<Delta>T\<close> and the COP.\<close>

definition clasificar_estado :: "real \<Rightarrow> real \<Rightarrow> string" where
  "clasificar_estado delta_t_cond cop_ciclo =
     (if delta_t_cond > 25 \<or> cop_ciclo < 2.0 then ''ALARMA''
      else if delta_t_cond > 20 \<or> cop_ciclo < 2.5 then ''ADVERTENCIA''
      else ''NORMAL'')"

text \<open>
  One appended record. The \<^verbatim>\<open>timestamp\<close> is kept as the datetime that the source
  formats with \<^verbatim>\<open>strftime("%Y-%m-%d %H:%M:%S")\<close>.
\<close>

record registro =
  timestamp :: datetime
  id_equipo :: string
  t_ambiente_C :: real
  t_interior_C :: real
  delta_t_cond_C :: real
  eta_compresor :: real
  cop :: real
  temp_descarga_C :: real
  trabajo_kW :: real
  calor_extraido_kW :: real
  calidad_evap :: real
  estado :: string

text \<open>
  The body of the \<^verbatim>\<open>try\<close> block (lines 116 to 148): the record to append, or the
  exception raised on the way, with the generator state where the block ended (the
  jitter of the interior temperature is drawn only once the solver has returned).
\<close>

definition intento ::
  "'g random_module \<Rightarrow> provider \<Rightarrow> datetime \<Rightarrow> string \<Rightarrow> params_equipo \<Rightarrow> real \<Rightarrow> real \<Rightarrow> real \<Rightarrow> 'g
     \<Rightarrow> (error + registro) \<times> 'g" where
  "intento R CP fecha id_eq params t_ambiente delta_t_cond eta g =
     (case simular_refrigerador CP t_ambiente (t_interior params) (flujo params) eta delta_t_cond of
        Inl e \<Rightarrow> (Inl e, g)
      | Inr resultado \<Rightarrow>
          (case bind_err (dict_get (scalar resultado) ''COP'') (\<lambda>c.
                bind_err (dict_get (scalar resultado) ''Temp_Descarga_C'') (\<lambda>td. Inr (c, td))) of
             Inl e \<Rightarrow> (Inl e, g)
           | Inr (cop_ciclo, temp_descarga) \<Rightarrow>
               let estado_sistema = clasificar_estado delta_t_cond cop_ciclo in
               case rnd_uniform R (-0.5) 0.5 g of
                 (jitter, g') \<Rightarrow>
                   (bind_err (dict_get (scalar resultado) ''Trabajo_Compresor_kW'') (\<lambda>trabajo.
                    bind_err (dict_get (scalar resultado) ''Calor_Extraido_kW'') (\<lambda>calor.
                    bind_err (dict_get (scalar resultado) ''Calidad_Evap'') (\<lambda>calidad.
                    Inr \<lparr>timestamp = fecha,
                         id_equipo = id_eq,
                         t_ambiente_C = t_ambiente,
                         t_interior_C = py_round (t_interior params + jitter) 1,
                         delta_t_cond_C = py_round delta_t_cond 1,
                         eta_compresor = py_round eta 3,
                         cop = py_round cop_ciclo 2,
                         temp_descarga_C = py_round temp_descarga 1,
                         trabajo_kW = py_round trabajo 3,
                         calor_extraido_kW = py_round calor 3,
                         calidad_evap = py_round calidad 3,
                         estado = estado_sistema\<rparr>))), g')))"

text \<open>
  The state of a run: the list \<^verbatim>\<open>registros\<close>, what the \<^verbatim>\<open>except\<close> branch has
  printed (one entry per message, holding the unit, the tick's datetime and the
  exception that the message interpolates), and the generator state.
\<close>

record 'g corrida =
  registros :: "registro list"
  errores :: "(string \<times> datetime \<times> error) list"
  gen :: 'g

text \<open>The body of the inner loop (lines 96 to 151) for one unit at tick \<open>i\<close>.\<close>

definition procesar_equipo ::
  "'g random_module \<Rightarrow> provider \<Rightarrow> datetime \<Rightarrow> nat \<Rightarrow> real \<Rightarrow> string \<times> params_equipo
     \<Rightarrow> 'g corrida \<Rightarrow> 'g corrida" where
  "procesar_equipo R CP fecha i t_ambiente eq c =
     (case eq of
        (id_eq, params) \<Rightarrow>
          (case parametros_operacion R i (gen c) of
             ((delta_t_cond, eta), g2) \<Rightarrow>
               (case intento R CP fecha id_eq params t_ambiente delta_t_cond eta g2 of
                  (Inr reg, g3) \<Rightarrow> c\<lparr>registros := registros c @ [reg], gen := g3\<rparr>
                | (Inl e, g3) \<Rightarrow> c\<lparr>errores := errores c @ [(id_eq, fecha, e)], gen := g3\<rparr>)))"

text \<open>The body of the outer loop (lines 89 to 151) for tick \<open>i\<close>.\<close>

definition procesar_tick ::
  "'g random_module \<Rightarrow> provider \<Rightarrow> datetime \<Rightarrow> nat \<Rightarrow> 'g corrida \<Rightarrow> 'g corrida" where
  "procesar_tick R CP fecha_inicio i c =
     (let fecha = fecha_inicio + 3600 * int (i * FRECUENCIA_HORAS);
          dia_del_anio = tm_yday fecha;
          hora = hour fecha
      in case calcular_temperatura_ambiente R hora dia_del_anio (gen c) of
           (t_ambiente, g1) \<Rightarrow>
             fold (procesar_equipo R CP fecha i t_ambiente) EQUIPOS (c\<lparr>gen := g1\<rparr>))"

text \<open>
  \<^verbatim>\<open>generar_datos\<close> up to the hand-over of \<^verbatim>\<open>registros\<close> to pandas: \<open>ahora\<close> is the
  reading of \<^verbatim>\<open>datetime.now()\<close> on line 84 and \<open>g\<close> the state of the process's
  generator at entry. The function has no parameter in the source; both are its
  implicit inputs. Writing the CSV file and the progress messages are left out.
\<close>

definition generar_datos :: "'g random_module \<Rightarrow> provider \<Rightarrow> datetime \<Rightarrow> 'g \<Rightarrow> 'g corrida" where
  "generar_datos R CP ahora g =
     (let fecha_inicio = ahora - 86400 * int DIAS_SIMULACION;
          total_puntos = DIAS_SIMULACION * 24 div FRECUENCIA_HORAS
      in fold (procesar_tick R CP fecha_inicio) [0..<total_puntos]
           \<lparr>registros = [], errores = [], gen = g\<rparr>)"

text \<open>
  Concrete stand-ins for the random module, for running the generator: the state is a
  counter \<open>n\<close>; \<^verbatim>\<open>random()\<close> yields \<open>(n mod 10) / 10\<close> and \<^verbatim>\<open>gauss(mu, sigma)\<close>
  yields \<open>mu + sigma ((n mod 5) - 2) / 2\<close>.
\<close>

definition R_contador :: "nat random_module" where
  "R_contador =
     \<lparr>rnd_random = (\<lambda>n. (real (n mod 10) / 10, Suc n)),
      rnd_gauss = (\<lambda>mu sigma n. (mu + sigma * (real (n mod 5) - 2) / 2, Suc n))\<rparr>"

text \<open>A provider that resolves no query.\<close>

definition CP_falla :: provider where
  "CP_falla out n1 v1 n2 v2 fluid = None"



text \<open>
  A run \<open>c'\<close> extends a run \<open>c\<close> by \<open>n\<close> outcomes: it keeps the records and the messages
  of \<open>c\<close> in place and adds \<open>n\<close> records and messages after them.
\<close>

definition extiende :: "nat \<Rightarrow> 'g corrida \<Rightarrow> 'g corrida \<Rightarrow> bool" where
  "extiende n c c' \<longleftrightarrow>
     (\<exists>rs es. registros c' = registros c @ rs \<and> errores c' = errores c @ es \<and>
        length rs + length es = n)"

text \<open>
  The states that the loops of \<^verbatim>\<open>generar_datos\<close> pass through: the datetime of tick
  \<open>i\<close>; the run when the outer loop reaches tick \<open>i\<close>; the ambient temperature drawn
  for that tick, with the generator state after the draw; and the run when the inner
  loop of tick \<open>i\<close> reaches the unit at position \<open>j\<close> of \<^verbatim>\<open>EQUIPOS\<close>.
\<close>

definition fecha_tick :: "datetime \<Rightarrow> nat \<Rightarrow> datetime" where
  "fecha_tick ahora i =
     ahora - 86400 * int DIAS_SIMULACION + 3600 * int (i * FRECUENCIA_HORAS)"

definition antes_del_tick :: "'g random_module \<Rightarrow> provider \<Rightarrow> datetime \<Rightarrow> 'g \<Rightarrow> nat \<Rightarrow> 'g corrida" where
  "antes_del_tick R CP ahora g i =
     fold (procesar_tick R CP (ahora - 86400 * int DIAS_SIMULACION)) [0..<i]
       \<lparr>registros = [], errores = [], gen = g\<rparr>"

definition temperatura_tick ::
  "'g random_module \<Rightarrow> provider \<Rightarrow> datetime \<Rightarrow> 'g \<Rightarrow> nat \<Rightarrow> real \<times> 'g" where
  "temperatura_tick R CP ahora g i =
     calcular_temperatura_ambiente R (hour (fecha_tick ahora i)) (tm_yday (fecha_tick ahora i))
       (gen (antes_del_tick R CP ahora g i))"

definition antes_del_equipo ::
  "'g random_module \<Rightarrow> provider \<Rightarrow> datetime \<Rightarrow> 'g \<Rightarrow> nat \<Rightarrow> nat \<Rightarrow> 'g corrida" where
  "antes_del_equipo R CP ahora g i j =
     (case temperatura_tick R CP ahora g i of
        (t_ambiente, g1) \<Rightarrow>
          fold (procesar_equipo R CP (fecha_tick ahora i) i t_ambiente) (take j EQUIPOS)
            ((antes_del_tick R CP ahora g i)\<lparr>gen := g1\<rparr>))"

text \<open>
  A provider that resolves what \<open>CP_lineal\<close> resolves, except every query at the
  temperature 255.15 K (an interior of -18 degrees Celsius).
\<close>

definition CP_parcial :: provider where
  "CP_parcial out n1 v1 n2 v2 fluid =
     (if n1 = ''T'' \<and> v1 = 255.15 then None else CP_lineal out n1 v1 n2 v2 fluid)"


section \<open>Properties of the cycle solver\<close>

subsection \<open>Running the solver\<close>

lemma bind_err_simps [simp]:
  "bind_err (Inl e) f = Inl e" "bind_err (Inr x) f = f x"
  by (simp_all add: bind_err_def)

lemma bind_err_Inr_iff: "bind_err m f = Inr r \<longleftrightarrow> (\<exists>x. m = Inr x \<and> f x = Inr r)"
  by (cases m) simp_all

lemma bind_err_Inl_iff: "bind_err m f = Inl e \<longleftrightarrow> m = Inl e \<or> (\<exists>x. m = Inr x \<and> f x = Inl e)"
  by (cases m) simp_all

lemma PropsSI_Inr_iff: "PropsSI CP out n1 v1 n2 v2 fl = Inr v \<longleftrightarrow> CP out n1 v1 n2 v2 fl = Some v"
  by (simp add: PropsSI_def split: option.splits)

lemma PropsSI_Inl_iff: "PropsSI CP out n1 v1 n2 v2 fl = Inl e \<longleftrightarrow> e = ValueError \<and> CP out n1 v1 n2 v2 fl = None"
  by (auto simp add: PropsSI_def split: option.splits)

lemma py_div_Inr_iff: "py_div a b = Inr c \<longleftrightarrow> b \<noteq> 0 \<and> c = a / b"
  by (auto simp: py_div_def)

lemma py_div_Inl_iff: "py_div a b = Inl e \<longleftrightarrow> b = 0 \<and> e = ZeroDivisionError"
  by (auto simp: py_div_def)

lemmas solver_eval =
  simular_refrigerador_def PropsSI_def CP_lineal_def h_liq_def h_vap_def py_div_def Let_def

lemma simular_nominal:
  "simular_refrigerador CP_lineal 20 4 0.08 0.75 15 = Inr resultado_nominal"
  by (simp add: solver_eval resultado_nominal_def)

lemma simular_lift_invertido:
  "simular_refrigerador CP_lineal (-30) 4 0.08 0.75 15 = Inr resultado_lift_invertido"
  by (simp add: solver_eval resultado_lift_invertido_def)

lemma simular_eta_2:
  "simular_refrigerador CP_lineal 20 4 0.08 2 15 = Inr resultado_eta_2"
  by (simp add: solver_eval resultado_eta_2_def)

text \<open>
  The solver returns exactly when its property queries resolve, the
  efficiency is not zero and the compressor work is not zero; the returned dictionary
  is then the one below. Nothing else decides the outcome.
\<close>

lemma simular_refrigerador_Inr_iff:
  "simular_refrigerador CP Ta Ti m eta dT = Inr r \<longleftrightarrow>
   (\<exists>h1 s1 P2 h2i s2 h3 T3 P4 x4 T2 s3 s4.
      CP ''H'' ''T'' (Ti + 273.15) ''Q'' 1 ''R134a'' = Some h1 \<and>
      CP ''S'' ''T'' (Ti + 273.15) ''Q'' 1 ''R134a'' = Some s1 \<and>
      CP ''P'' ''T'' (Ta + 273.15 + dT) ''Q'' 0 ''R134a'' = Some P2 \<and>
      CP ''H'' ''P'' P2 ''S'' s1 ''R134a'' = Some h2i \<and>
      eta \<noteq> 0 \<and>
      CP ''S'' ''P'' P2 ''H'' (h1 + (h2i - h1) / eta) ''R134a'' = Some s2 \<and>
      CP ''H'' ''P'' P2 ''Q'' 0 ''R134a'' = Some h3 \<and>
      CP ''T'' ''P'' P2 ''Q'' 0 ''R134a'' = Some T3 \<and>
      CP ''P'' ''T'' (Ti + 273.15) ''Q'' 1 ''R134a'' = Some P4 \<and>
      CP ''Q'' ''P'' P4 ''H'' h3 ''R134a'' = Some x4 \<and>
      m * (h1 + (h2i - h1) / eta - h1) \<noteq> 0 \<and>
      CP ''T'' ''H'' (h1 + (h2i - h1) / eta) ''P'' P2 ''R134a'' = Some T2 \<and>
      CP ''S'' ''P'' P2 ''Q'' 0 ''R134a'' = Some s3 \<and>
      CP ''S'' ''P'' P4 ''H'' h3 ''R134a'' = Some s4 \<and>
      r = \<lparr>scalar =
            [''Trabajo_Compresor_kW'' \<mapsto> m * (h1 + (h2i - h1) / eta - h1) / 1000,
             ''Calor_Extraido_kW'' \<mapsto> m * (h1 - h3) / 1000,
             ''COP'' \<mapsto> m * (h1 - h3) / (m * (h1 + (h2i - h1) / eta - h1)),
             ''Calidad_Evap'' \<mapsto> x4,
             ''Temp_Descarga_C'' \<mapsto> T2 - 273.15,
             ''Flujo_Masico_kg_s'' \<mapsto> m],
          states =
            [1 \<mapsto> \<lparr>st_P = P4, st_T = Ti + 273.15, st_h = h1, st_s = s1,
                    st_desc = ''Entrada Compresor''\<rparr>,
             2 \<mapsto> \<lparr>st_P = P2, st_T = T2, st_h = h1 + (h2i - h1) / eta, st_s = s2,
                    st_desc = ''Entrada Condensador''\<rparr>,
             3 \<mapsto> \<lparr>st_P = P2, st_T = T3, st_h = h3, st_s = s3,
                    st_desc = ''Salida Condensador''\<rparr>,
             4 \<mapsto> \<lparr>st_P = P4, st_T = Ti + 273.15, st_h = h3, st_s = s4,
                    st_desc = ''Entrada Evaporador''\<rparr>]\<rparr>)"
  unfolding simular_refrigerador_def Let_def bind_err_Inr_iff PropsSI_Inr_iff py_div_Inr_iff
  by (simp only: ex_simps simp_thms) auto

lemma div_eta_ge: "0 \<le> d \<Longrightarrow> 0 < eta \<Longrightarrow> eta < 1 \<Longrightarrow> (d::real) \<le> d / eta"
  by (simp add: field_simps mult_left_le)

lemma div_eta_lt: "d < 0 \<Longrightarrow> 0 < eta \<Longrightarrow> eta < 1 \<Longrightarrow> d / eta < (d::real)"
  by (simp add: field_simps)

lemma simular_refrigerador_keys:
  assumes "simular_refrigerador CP Ta Ti m eta dT = Inr r"
  shows "dom (scalar r) =
           {''Trabajo_Compresor_kW'', ''Calor_Extraido_kW'', ''COP'', ''Calidad_Evap'',
            ''Temp_Descarga_C'', ''Flujo_Masico_kg_s''}"
    and "dom (states r) = {1, 2, 3, 4}"
proof -
  from assms obtain sc st where r: "r = \<lparr>scalar = sc, states = st\<rparr>"
    and sc: "dom sc = {''Flujo_Masico_kg_s'', ''Temp_Descarga_C'', ''Calidad_Evap'', ''COP'',
            ''Calor_Extraido_kW'', ''Trabajo_Compresor_kW''}"
    and st: "dom st = {4, 3, 2, 1}"
    unfolding simular_refrigerador_Inr_iff by force
  show "dom (scalar r) =
           {''Trabajo_Compresor_kW'', ''Calor_Extraido_kW'', ''COP'', ''Calidad_Evap'',
            ''Temp_Descarga_C'', ''Flujo_Masico_kg_s''}"
    unfolding r using sc by auto
  show "dom (states r) = {1, 2, 3, 4}"
    unfolding r using st by auto
qed

lemma simular_refrigerador_Inl_cases:
  assumes "simular_refrigerador CP Ta Ti m eta dT = Inl e"
  shows "(e = ValueError \<and> (\<exists>out n1 v1 n2 v2. CP out n1 v1 n2 v2 ''R134a'' = None)) \<or>
         (e = ZeroDivisionError \<and>
            (eta = 0 \<or> m = 0 \<or>
             (\<exists>h1 s1 P2.
                CP ''H'' ''T'' (Ti + 273.15) ''Q'' 1 ''R134a'' = Some h1 \<and>
                CP ''S'' ''T'' (Ti + 273.15) ''Q'' 1 ''R134a'' = Some s1 \<and>
                CP ''P'' ''T'' (Ta + 273.15 + dT) ''Q'' 0 ''R134a'' = Some P2 \<and>
                CP ''H'' ''P'' P2 ''S'' s1 ''R134a'' = Some h1)))"
  using assms
  unfolding simular_refrigerador_def Let_def bind_err_Inl_iff PropsSI_Inr_iff py_div_Inr_iff
    PropsSI_Inl_iff py_div_Inl_iff
  by (elim disjE exE conjE) (simp_all, blast+)

subsection \<open>Compressor work and COP\<close>

text \<open>
  Claim C1 says that a compressor work \<open>\<le> 0\<close> makes the solver raise and return
  nothing. At an inverted temperature lift the work is negative and the solver
  returns a dictionary, with a negative COP.
\<close>

theorem compressor_work_counterexample:
  "simular_refrigerador CP_lineal (-30) 4 0.08 0.75 15 = Inr resultado_lift_invertido \<and>
   map_option st_h (states resultado_lift_invertido 1) = Some 402000 \<and>
   map_option st_h (states resultado_lift_invertido 2) = Some (1168000 / 3) \<and>
   (0.08 :: real) * (1168000 / 3 - 402000) \<le> 0 \<and>
   scalar resultado_lift_invertido ''Trabajo_Compresor_kW'' = Some (- (76 / 75)) \<and>
   scalar resultado_lift_invertido ''COP'' = Some (- (1347 / 76))"
  by (simp add: solver_eval resultado_lift_invertido_def)

text \<open>
  Claim C1, as the code has it. When the queries resolve and the efficiency is not
  zero: if the compressor work \<open>m (h2 - h1)\<close> is exactly zero the division of the COP
  raises \<^verbatim>\<open>ZeroDivisionError\<close> and nothing is returned; otherwise, whatever the sign
  of the work, a dictionary is returned whose COP is the evaporator heat divided by
  the work.
\<close>

theorem compressor_work_and_cop:
  assumes "CP ''H'' ''T'' (Ti + 273.15) ''Q'' 1 ''R134a'' = Some h1"
    and "CP ''S'' ''T'' (Ti + 273.15) ''Q'' 1 ''R134a'' = Some s1"
    and "CP ''P'' ''T'' (Ta + 273.15 + dT) ''Q'' 0 ''R134a'' = Some P2"
    and "CP ''H'' ''P'' P2 ''S'' s1 ''R134a'' = Some h2_ideal"
    and "eta \<noteq> 0"
    and "h2 = h1 + (h2_ideal - h1) / eta"
    and "CP ''S'' ''P'' P2 ''H'' h2 ''R134a'' = Some s2"
    and "CP ''H'' ''P'' P2 ''Q'' 0 ''R134a'' = Some h3"
    and "CP ''T'' ''P'' P2 ''Q'' 0 ''R134a'' = Some T3"
    and "CP ''P'' ''T'' (Ti + 273.15) ''Q'' 1 ''R134a'' = Some P4"
    and "CP ''Q'' ''P'' P4 ''H'' h3 ''R134a'' = Some x4"
    and "CP ''T'' ''H'' h2 ''P'' P2 ''R134a'' = Some T2"
    and "CP ''S'' ''P'' P2 ''Q'' 0 ''R134a'' = Some s3"
    and "CP ''S'' ''P'' P4 ''H'' h3 ''R134a'' = Some s4"
  shows "if m * (h2 - h1) = 0
         then simular_refrigerador CP Ta Ti m eta dT = Inl ZeroDivisionError
         else \<exists>r. simular_refrigerador CP Ta Ti m eta dT = Inr r \<and>
                scalar r ''Trabajo_Compresor_kW'' = Some (m * (h2 - h1) / 1000) \<and>
                scalar r ''Calor_Extraido_kW'' = Some (m * (h1 - h3) / 1000) \<and>
                scalar r ''COP'' = Some (m * (h1 - h3) / (m * (h2 - h1)))"
  using assms by (simp add: simular_refrigerador_def PropsSI_def py_div_def Let_def)

theorem compressor_work_and_cop_witness:
  "\<exists>r. simular_refrigerador CP_lineal (-30) 4 0.08 0.75 15 = Inr r \<and>
       scalar r ''Trabajo_Compresor_kW'' = Some (0.08 * (1168000 / 3 - 402000) / 1000) \<and>
       scalar r ''Calor_Extraido_kW'' = Some (0.08 * (402000 - 177500) / 1000) \<and>
       scalar r ''COP'' = Some (0.08 * (402000 - 177500) / (0.08 * (1168000 / 3 - 402000)))"
proof -
  have q: "CP_lineal ''H'' ''T'' (4 + 273.15) ''Q'' 1 ''R134a'' = Some 402000"
    "CP_lineal ''S'' ''T'' (4 + 273.15) ''Q'' 1 ''R134a'' = Some 1700"
    "CP_lineal ''P'' ''T'' (-30 + 273.15 + 15) ''Q'' 0 ''R134a'' = Some 258150"
    "CP_lineal ''H'' ''P'' 258150 ''S'' 1700 ''R134a'' = Some 392500"
    "(0.75 :: real) \<noteq> 0"
    "(1168000 / 3 :: real) = 402000 + (392500 - 402000) / 0.75"
    "CP_lineal ''S'' ''P'' 258150 ''H'' (1168000 / 3) ''R134a'' = Some (15205 / 9)"
    "CP_lineal ''H'' ''P'' 258150 ''Q'' 0 ''R134a'' = Some 177500"
    "CP_lineal ''T'' ''P'' 258150 ''Q'' 0 ''R134a'' = Some (5163 / 20)"
    "CP_lineal ''P'' ''T'' (4 + 273.15) ''Q'' 1 ''R134a'' = Some 277150"
    "CP_lineal ''Q'' ''P'' 277150 ''H'' 177500 ''R134a'' = Some (- (57 / 392))"
    "CP_lineal ''T'' ''H'' (1168000 / 3) ''P'' 258150 ''R134a'' = Some (15299 / 60)"
    "CP_lineal ''S'' ''P'' 258150 ''Q'' 0 ''R134a'' = Some 1000"
    "CP_lineal ''S'' ''P'' 277150 ''H'' 177500 ''R134a'' = Some (2855 / 3)"
    by (simp_all add: CP_lineal_def h_liq_def h_vap_def)
  show ?thesis
    using compressor_work_and_cop [where CP = CP_lineal and m = "0.08", OF q] by simp
qed

subsection \<open>No validation of the parameters\<close>

text \<open>
  Claim C2 says that a mass flow \<open>\<le> 0\<close>, an efficiency outside \<open>(0, 1]\<close> or a
  condenser \<open>\<Delta>T \<le> 0\<close> is rejected before any property is computed. A negative mass
  flow, an efficiency of 1.5 and a \<open>\<Delta>T\<close> of -5 each yield a dictionary; a mass flow
  of zero does fail, but at the division of the COP, after the properties.
\<close>

theorem parameter_validation_counterexample:
  "\<not> isl (simular_refrigerador CP_lineal 20 4 (- 0.08) 0.75 15) \<and>
   \<not> isl (simular_refrigerador CP_lineal 20 4 0.08 1.5 15) \<and>
   \<not> isl (simular_refrigerador CP_lineal 20 4 0.08 0.75 (- 5)) \<and>
   simular_refrigerador CP_lineal 20 4 0 0.75 15 = Inl ZeroDivisionError"
  by (simp add: solver_eval)

text \<open>When the solver raises \<^verbatim>\<open>ZeroDivisionError\<close>, when it returns, and that it never raises \<^verbatim>\<open>KeyError\<close>.\<close>

lemma zero_division_at_efficiency:
  assumes "CP ''H'' ''T'' (Ti + 273.15) ''Q'' 1 ''R134a'' = Some h1"
      "CP ''S'' ''T'' (Ti + 273.15) ''Q'' 1 ''R134a'' = Some s1"
      "CP ''P'' ''T'' (Ta + 273.15 + dT) ''Q'' 0 ''R134a'' = Some P2"
      "CP ''H'' ''P'' P2 ''S'' s1 ''R134a'' = Some h2_ideal"
      "eta = 0"
  shows "simular_refrigerador CP Ta Ti m eta dT = Inl ZeroDivisionError"
  using assms by (simp add: simular_refrigerador_def Let_def PropsSI_def py_div_def)

lemma zero_division_at_work:
  assumes "CP ''H'' ''T'' (Ti + 273.15) ''Q'' 1 ''R134a'' = Some h1"
      "CP ''S'' ''T'' (Ti + 273.15) ''Q'' 1 ''R134a'' = Some s1"
      "CP ''P'' ''T'' (Ta + 273.15 + dT) ''Q'' 0 ''R134a'' = Some P2"
      "CP ''H'' ''P'' P2 ''S'' s1 ''R134a'' = Some h2_ideal"
      "eta \<noteq> 0"
      "CP ''S'' ''P'' P2 ''H'' (h1 + (h2_ideal - h1) / eta) ''R134a'' = Some s2"
      "CP ''H'' ''P'' P2 ''Q'' 0 ''R134a'' = Some h3"
      "CP ''T'' ''P'' P2 ''Q'' 0 ''R134a'' = Some T3"
      "CP ''P'' ''T'' (Ti + 273.15) ''Q'' 1 ''R134a'' = Some P4"
      "CP ''Q'' ''P'' P4 ''H'' h3 ''R134a'' = Some x4"
      "m * (h1 + (h2_ideal - h1) / eta - h1) = 0"
  shows "simular_refrigerador CP Ta Ti m eta dT = Inl ZeroDivisionError"
  using assms by (simp add: simular_refrigerador_def Let_def PropsSI_def py_div_def)

lemma zero_division_only_if:
  assumes "simular_refrigerador CP Ta Ti m eta dT = Inl ZeroDivisionError"
  shows "\<exists>h1 s1 P2 h2_ideal.
      CP ''H'' ''T'' (Ti + 273.15) ''Q'' 1 ''R134a'' = Some h1 \<and>
      CP ''S'' ''T'' (Ti + 273.15) ''Q'' 1 ''R134a'' = Some s1 \<and>
      CP ''P'' ''T'' (Ta + 273.15 + dT) ''Q'' 0 ''R134a'' = Some P2 \<and>
      CP ''H'' ''P'' P2 ''S'' s1 ''R134a'' = Some h2_ideal \<and>
      (eta = 0 \<or>
       (\<exists>s2 h3 T3 P4 x4.
          CP ''S'' ''P'' P2 ''H'' (h1 + (h2_ideal - h1) / eta) ''R134a'' = Some s2 \<and>
          CP ''H'' ''P'' P2 ''Q'' 0 ''R134a'' = Some h3 \<and>
          CP ''T'' ''P'' P2 ''Q'' 0 ''R134a'' = Some T3 \<and>
          CP ''P'' ''T'' (Ti + 273.15) ''Q'' 1 ''R134a'' = Some P4 \<and>
          CP ''Q'' ''P'' P4 ''H'' h3 ''R134a'' = Some x4 \<and>
          m * (h1 + (h2_ideal - h1) / eta - h1) = 0))"
proof -
  obtain h1 where q1: "CP ''H'' ''T'' (Ti + 273.15) ''Q'' 1 ''R134a'' = Some h1"
    using assms by (cases "CP ''H'' ''T'' (Ti + 273.15) ''Q'' 1 ''R134a''")
      (simp_all add: simular_refrigerador_def Let_def PropsSI_def)
  obtain s1 where q2: "CP ''S'' ''T'' (Ti + 273.15) ''Q'' 1 ''R134a'' = Some s1"
    using assms q1 by (cases "CP ''S'' ''T'' (Ti + 273.15) ''Q'' 1 ''R134a''")
      (simp_all add: simular_refrigerador_def Let_def PropsSI_def)
  obtain P2 where q3: "CP ''P'' ''T'' (Ta + 273.15 + dT) ''Q'' 0 ''R134a'' = Some P2"
    using assms q1 q2 by (cases "CP ''P'' ''T'' (Ta + 273.15 + dT) ''Q'' 0 ''R134a''")
      (simp_all add: simular_refrigerador_def Let_def PropsSI_def)
  obtain h2i where q4: "CP ''H'' ''P'' P2 ''S'' s1 ''R134a'' = Some h2i"
    using assms q1 q2 q3 by (cases "CP ''H'' ''P'' P2 ''S'' s1 ''R134a''")
      (simp_all add: simular_refrigerador_def Let_def PropsSI_def)
  show ?thesis
  proof (cases "eta = 0")
    case True
    with q1 q2 q3 q4 show ?thesis by simp
  next
    case False
    note q = q1 q2 q3 q4 False
    obtain s2 where q5: "CP ''S'' ''P'' P2 ''H'' (h1 + (h2i - h1) / eta) ''R134a'' = Some s2"
      using assms q by (cases "CP ''S'' ''P'' P2 ''H'' (h1 + (h2i - h1) / eta) ''R134a''")
        (simp_all add: simular_refrigerador_def Let_def PropsSI_def py_div_def)
    obtain h3 where q6: "CP ''H'' ''P'' P2 ''Q'' 0 ''R134a'' = Some h3"
      using assms q q5 by (cases "CP ''H'' ''P'' P2 ''Q'' 0 ''R134a''")
        (simp_all add: simular_refrigerador_def Let_def PropsSI_def py_div_def)
    obtain T3 where q7: "CP ''T'' ''P'' P2 ''Q'' 0 ''R134a'' = Some T3"
      using assms q q5 q6 by (cases "CP ''T'' ''P'' P2 ''Q'' 0 ''R134a''")
        (simp_all add: simular_refrigerador_def Let_def PropsSI_def py_div_def)
    obtain P4 where q8: "CP ''P'' ''T'' (Ti + 273.15) ''Q'' 1 ''R134a'' = Some P4"
      using assms q q5 q6 q7 by (cases "CP ''P'' ''T'' (Ti + 273.15) ''Q'' 1 ''R134a''")
        (simp_all add: simular_refrigerador_def Let_def PropsSI_def py_div_def)
    obtain x4 where q9: "CP ''Q'' ''P'' P4 ''H'' h3 ''R134a'' = Some x4"
      using assms q q5 q6 q7 q8 by (cases "CP ''Q'' ''P'' P4 ''H'' h3 ''R134a''")
        (simp_all add: simular_refrigerador_def Let_def PropsSI_def py_div_def)
    have "m * (h1 + (h2i - h1) / eta - h1) = 0"
    proof (rule ccontr)
      assume "m * (h1 + (h2i - h1) / eta - h1) \<noteq> 0"
      with assms q q5 q6 q7 q8 q9 show False
        by (simp add: simular_refrigerador_def Let_def PropsSI_def py_div_def
            split: option.splits)
    qed
    with q q5 q6 q7 q8 q9 show ?thesis by simp
  qed
qed

lemma simular_refrigerador_no_KeyError:
  "simular_refrigerador CP Ta Ti m eta dT \<noteq> Inl KeyError"
proof
  assume "simular_refrigerador CP Ta Ti m eta dT = Inl KeyError"
  from simular_refrigerador_Inl_cases [OF this] show False by simp
qed

lemma returns_only_if:
  assumes "simular_refrigerador CP Ta Ti m eta dT = Inr r"
  shows "\<exists>h1 s1 P2 h2_ideal s2 h3 T3 P4 x4 T2 s3 s4.
      CP ''H'' ''T'' (Ti + 273.15) ''Q'' 1 ''R134a'' = Some h1 \<and>
      CP ''S'' ''T'' (Ti + 273.15) ''Q'' 1 ''R134a'' = Some s1 \<and>
      CP ''P'' ''T'' (Ta + 273.15 + dT) ''Q'' 0 ''R134a'' = Some P2 \<and>
      CP ''H'' ''P'' P2 ''S'' s1 ''R134a'' = Some h2_ideal \<and>
      eta \<noteq> 0 \<and>
      CP ''S'' ''P'' P2 ''H'' (h1 + (h2_ideal - h1) / eta) ''R134a'' = Some s2 \<and>
      CP ''H'' ''P'' P2 ''Q'' 0 ''R134a'' = Some h3 \<and>
      CP ''T'' ''P'' P2 ''Q'' 0 ''R134a'' = Some T3 \<and>
      CP ''P'' ''T'' (Ti + 273.15) ''Q'' 1 ''R134a'' = Some P4 \<and>
      CP ''Q'' ''P'' P4 ''H'' h3 ''R134a'' = Some x4 \<and>
      m * (h1 + (h2_ideal - h1) / eta - h1) \<noteq> 0 \<and>
      CP ''T'' ''H'' (h1 + (h2_ideal - h1) / eta) ''P'' P2 ''R134a'' = Some T2 \<and>
      CP ''S'' ''P'' P2 ''Q'' 0 ''R134a'' = Some s3 \<and>
      CP ''S'' ''P'' P4 ''H'' h3 ''R134a'' = Some s4"
  using assms unfolding simular_refrigerador_Inr_iff by blast

lemma returns_if:
  assumes "CP ''H'' ''T'' (Ti + 273.15) ''Q'' 1 ''R134a'' = Some h1"
    and "CP ''S'' ''T'' (Ti + 273.15) ''Q'' 1 ''R134a'' = Some s1"
    and "CP ''P'' ''T'' (Ta + 273.15 + dT) ''Q'' 0 ''R134a'' = Some P2"
    and "CP ''H'' ''P'' P2 ''S'' s1 ''R134a'' = Some h2_ideal"
    and "eta \<noteq> 0"
    and "CP ''S'' ''P'' P2 ''H'' (h1 + (h2_ideal - h1) / eta) ''R134a'' = Some s2"
    and "CP ''H'' ''P'' P2 ''Q'' 0 ''R134a'' = Some h3"
    and "CP ''T'' ''P'' P2 ''Q'' 0 ''R134a'' = Some T3"
    and "CP ''P'' ''T'' (Ti + 273.15) ''Q'' 1 ''R134a'' = Some P4"
    and "CP ''Q'' ''P'' P4 ''H'' h3 ''R134a'' = Some x4"
    and "m * (h1 + (h2_ideal - h1) / eta - h1) \<noteq> 0"
    and "CP ''T'' ''H'' (h1 + (h2_ideal - h1) / eta) ''P'' P2 ''R134a'' = Some T2"
    and "CP ''S'' ''P'' P2 ''Q'' 0 ''R134a'' = Some s3"
    and "CP ''S'' ''P'' P4 ''H'' h3 ''R134a'' = Some s4"
  shows "\<exists>r. simular_refrigerador CP Ta Ti m eta dT = Inr r"
  using assms by (simp add: simular_refrigerador_def PropsSI_def py_div_def Let_def)

text \<open>
  Claim C2, as the code has it. The solver checks nothing of its own. It returns a
  result exactly when every property query of the call resolves, the efficiency is
  not zero and the computed compressor work \<open>m (h2 - h1)\<close> is not zero: the sign of the
  mass flow, the size of the efficiency and the sign of the condenser \<open>\<Delta>T\<close> play no
  part. It raises \<^verbatim>\<open>ZeroDivisionError\<close> exactly when the first four queries resolve
  and the efficiency is zero, or the queries up to the quality resolve and the computed
  work is zero. In every other case the failure is the \<^verbatim>\<open>ValueError\<close> of a query of
  the call that the provider does not resolve; no other exception occurs.
\<close>

theorem solver_outcome:
  "((\<exists>r. simular_refrigerador CP Ta Ti m eta dT = Inr r) \<longleftrightarrow>
    (\<exists>h1 s1 P2 h2_ideal s2 h3 T3 P4 x4 T2 s3 s4.
      CP ''H'' ''T'' (Ti + 273.15) ''Q'' 1 ''R134a'' = Some h1 \<and>
      CP ''S'' ''T'' (Ti + 273.15) ''Q'' 1 ''R134a'' = Some s1 \<and>
      CP ''P'' ''T'' (Ta + 273.15 + dT) ''Q'' 0 ''R134a'' = Some P2 \<and>
      CP ''H'' ''P'' P2 ''S'' s1 ''R134a'' = Some h2_ideal \<and>
      eta \<noteq> 0 \<and>
      CP ''S'' ''P'' P2 ''H'' (h1 + (h2_ideal - h1) / eta) ''R134a'' = Some s2 \<and>
      CP ''H'' ''P'' P2 ''Q'' 0 ''R134a'' = Some h3 \<and>
      CP ''T'' ''P'' P2 ''Q'' 0 ''R134a'' = Some T3 \<and>
      CP ''P'' ''T'' (Ti + 273.15) ''Q'' 1 ''R134a'' = Some P4 \<and>
      CP ''Q'' ''P'' P4 ''H'' h3 ''R134a'' = Some x4 \<and>
      m * (h1 + (h2_ideal - h1) / eta - h1) \<noteq> 0 \<and>
      CP ''T'' ''H'' (h1 + (h2_ideal - h1) / eta) ''P'' P2 ''R134a'' = Some T2 \<and>
      CP ''S'' ''P'' P2 ''Q'' 0 ''R134a'' = Some s3 \<and>
      CP ''S'' ''P'' P4 ''H'' h3 ''R134a'' = Some s4)) \<and>
   (simular_refrigerador CP Ta Ti m eta dT = Inl ZeroDivisionError \<longleftrightarrow>
    (\<exists>h1 s1 P2 h2_ideal.
      CP ''H'' ''T'' (Ti + 273.15) ''Q'' 1 ''R134a'' = Some h1 \<and>
      CP ''S'' ''T'' (Ti + 273.15) ''Q'' 1 ''R134a'' = Some s1 \<and>
      CP ''P'' ''T'' (Ta + 273.15 + dT) ''Q'' 0 ''R134a'' = Some P2 \<and>
      CP ''H'' ''P'' P2 ''S'' s1 ''R134a'' = Some h2_ideal \<and>
      (eta = 0 \<or>
       (\<exists>s2 h3 T3 P4 x4.
          CP ''S'' ''P'' P2 ''H'' (h1 + (h2_ideal - h1) / eta) ''R134a'' = Some s2 \<and>
          CP ''H'' ''P'' P2 ''Q'' 0 ''R134a'' = Some h3 \<and>
          CP ''T'' ''P'' P2 ''Q'' 0 ''R134a'' = Some T3 \<and>
          CP ''P'' ''T'' (Ti + 273.15) ''Q'' 1 ''R134a'' = Some P4 \<and>
          CP ''Q'' ''P'' P4 ''H'' h3 ''R134a'' = Some x4 \<and>
          m * (h1 + (h2_ideal - h1) / eta - h1) = 0)))) \<and>
   simular_refrigerador CP Ta Ti m eta dT \<noteq> Inl KeyError"
proof (intro conjI iffI)
  assume "\<exists>r. simular_refrigerador CP Ta Ti m eta dT = Inr r"
  then obtain r where "simular_refrigerador CP Ta Ti m eta dT = Inr r" ..
  then show "\<exists>h1 s1 P2 h2_ideal s2 h3 T3 P4 x4 T2 s3 s4.
      CP ''H'' ''T'' (Ti + 273.15) ''Q'' 1 ''R134a'' = Some h1 \<and>
      CP ''S'' ''T'' (Ti + 273.15) ''Q'' 1 ''R134a'' = Some s1 \<and>
      CP ''P'' ''T'' (Ta + 273.15 + dT) ''Q'' 0 ''R134a'' = Some P2 \<and>
      CP ''H'' ''P'' P2 ''S'' s1 ''R134a'' = Some h2_ideal \<and>
      eta \<noteq> 0 \<and>
      CP ''S'' ''P'' P2 ''H'' (h1 + (h2_ideal - h1) / eta) ''R134a'' = Some s2 \<and>
      CP ''H'' ''P'' P2 ''Q'' 0 ''R134a'' = Some h3 \<and>
      CP ''T'' ''P'' P2 ''Q'' 0 ''R134a'' = Some T3 \<and>
      CP ''P'' ''T'' (Ti + 273.15) ''Q'' 1 ''R134a'' = Some P4 \<and>
      CP ''Q'' ''P'' P4 ''H'' h3 ''R134a'' = Some x4 \<and>
      m * (h1 + (h2_ideal - h1) / eta - h1) \<noteq> 0 \<and>
      CP ''T'' ''H'' (h1 + (h2_ideal - h1) / eta) ''P'' P2 ''R134a'' = Some T2 \<and>
      CP ''S'' ''P'' P2 ''Q'' 0 ''R134a'' = Some s3 \<and>
      CP ''S'' ''P'' P4 ''H'' h3 ''R134a'' = Some s4"
    by (rule returns_only_if)
next
  assume "\<exists>h1 s1 P2 h2_ideal s2 h3 T3 P4 x4 T2 s3 s4.
      CP ''H'' ''T'' (Ti + 273.15) ''Q'' 1 ''R134a'' = Some h1 \<and>
      CP ''S'' ''T'' (Ti + 273.15) ''Q'' 1 ''R134a'' = Some s1 \<and>
      CP ''P'' ''T'' (Ta + 273.15 + dT) ''Q'' 0 ''R134a'' = Some P2 \<and>
      CP ''H'' ''P'' P2 ''S'' s1 ''R134a'' = Some h2_ideal \<and>
      eta \<noteq> 0 \<and>
      CP ''S'' ''P'' P2 ''H'' (h1 + (h2_ideal - h1) / eta) ''R134a'' = Some s2 \<and>
      CP ''H'' ''P'' P2 ''Q'' 0 ''R134a'' = Some h3 \<and>
      CP ''T'' ''P'' P2 ''Q'' 0 ''R134a'' = Some T3 \<and>
      CP ''P'' ''T'' (Ti + 273.15) ''Q'' 1 ''R134a'' = Some P4 \<and>
      CP ''Q'' ''P'' P4 ''H'' h3 ''R134a'' = Some x4 \<and>
      m * (h1 + (h2_ideal - h1) / eta - h1) \<noteq> 0 \<and>
      CP ''T'' ''H'' (h1 + (h2_ideal - h1) / eta) ''P'' P2 ''R134a'' = Some T2 \<and>
      CP ''S'' ''P'' P2 ''Q'' 0 ''R134a'' = Some s3 \<and>
      CP ''S'' ''P'' P4 ''H'' h3 ''R134a'' = Some s4"
  then show "\<exists>r. simular_refrigerador CP Ta Ti m eta dT = Inr r"
    by (elim exE conjE) (rule returns_if)
next
  assume "simular_refrigerador CP Ta Ti m eta dT = Inl ZeroDivisionError"
  then show "\<exists>h1 s1 P2 h2_ideal.
      CP ''H'' ''T'' (Ti + 273.15) ''Q'' 1 ''R134a'' = Some h1 \<and>
      CP ''S'' ''T'' (Ti + 273.15) ''Q'' 1 ''R134a'' = Some s1 \<and>
      CP ''P'' ''T'' (Ta + 273.15 + dT) ''Q'' 0 ''R134a'' = Some P2 \<and>
      CP ''H'' ''P'' P2 ''S'' s1 ''R134a'' = Some h2_ideal \<and>
      (eta = 0 \<or>
       (\<exists>s2 h3 T3 P4 x4.
          CP ''S'' ''P'' P2 ''H'' (h1 + (h2_ideal - h1) / eta) ''R134a'' = Some s2 \<and>
          CP ''H'' ''P'' P2 ''Q'' 0 ''R134a'' = Some h3 \<and>
          CP ''T'' ''P'' P2 ''Q'' 0 ''R134a'' = Some T3 \<and>
          CP ''P'' ''T'' (Ti + 273.15) ''Q'' 1 ''R134a'' = Some P4 \<and>
          CP ''Q'' ''P'' P4 ''H'' h3 ''R134a'' = Some x4 \<and>
          m * (h1 + (h2_ideal - h1) / eta - h1) = 0))"
    by (rule zero_division_only_if)
next
  assume "\<exists>h1 s1 P2 h2_ideal.
      CP ''H'' ''T'' (Ti + 273.15) ''Q'' 1 ''R134a'' = Some h1 \<and>
      CP ''S'' ''T'' (Ti + 273.15) ''Q'' 1 ''R134a'' = Some s1 \<and>
      CP ''P'' ''T'' (Ta + 273.15 + dT) ''Q'' 0 ''R134a'' = Some P2 \<and>
      CP ''H'' ''P'' P2 ''S'' s1 ''R134a'' = Some h2_ideal \<and>
      (eta = 0 \<or>
       (\<exists>s2 h3 T3 P4 x4.
          CP ''S'' ''P'' P2 ''H'' (h1 + (h2_ideal - h1) / eta) ''R134a'' = Some s2 \<and>
          CP ''H'' ''P'' P2 ''Q'' 0 ''R134a'' = Some h3 \<and>
          CP ''T'' ''P'' P2 ''Q'' 0 ''R134a'' = Some T3 \<and>
          CP ''P'' ''T'' (Ti + 273.15) ''Q'' 1 ''R134a'' = Some P4 \<and>
          CP ''Q'' ''P'' P4 ''H'' h3 ''R134a'' = Some x4 \<and>
          m * (h1 + (h2_ideal - h1) / eta - h1) = 0))"
  then obtain h1 s1 P2 h2i where q:
      "CP ''H'' ''T'' (Ti + 273.15) ''Q'' 1 ''R134a'' = Some h1"
      "CP ''S'' ''T'' (Ti + 273.15) ''Q'' 1 ''R134a'' = Some s1"
      "CP ''P'' ''T'' (Ta + 273.15 + dT) ''Q'' 0 ''R134a'' = Some P2"
      "CP ''H'' ''P'' P2 ''S'' s1 ''R134a'' = Some h2i"
    and alt: "eta = 0 \<or>
       (\<exists>s2 h3 T3 P4 x4.
          CP ''S'' ''P'' P2 ''H'' (h1 + (h2i - h1) / eta) ''R134a'' = Some s2 \<and>
          CP ''H'' ''P'' P2 ''Q'' 0 ''R134a'' = Some h3 \<and>
          CP ''T'' ''P'' P2 ''Q'' 0 ''R134a'' = Some T3 \<and>
          CP ''P'' ''T'' (Ti + 273.15) ''Q'' 1 ''R134a'' = Some P4 \<and>
          CP ''Q'' ''P'' P4 ''H'' h3 ''R134a'' = Some x4 \<and>
          m * (h1 + (h2i - h1) / eta - h1) = 0)"
    by blast
  show "simular_refrigerador CP Ta Ti m eta dT = Inl ZeroDivisionError"
  proof (cases "eta = 0")
    case True
    from zero_division_at_efficiency [where CP = CP, OF q True] show ?thesis .
  next
    case False
    with alt obtain s2 h3 T3 P4 x4 where
      "CP ''S'' ''P'' P2 ''H'' (h1 + (h2i - h1) / eta) ''R134a'' = Some s2"
      "CP ''H'' ''P'' P2 ''Q'' 0 ''R134a'' = Some h3"
      "CP ''T'' ''P'' P2 ''Q'' 0 ''R134a'' = Some T3"
      "CP ''P'' ''T'' (Ti + 273.15) ''Q'' 1 ''R134a'' = Some P4"
      "CP ''Q'' ''P'' P4 ''H'' h3 ''R134a'' = Some x4"
      "m * (h1 + (h2i - h1) / eta - h1) = 0"
      by blast
    from zero_division_at_work [where CP = CP, OF q False this] show ?thesis .
  qed
next
  show "simular_refrigerador CP Ta Ti m eta dT \<noteq> Inl KeyError"
    by (rule simular_refrigerador_no_KeyError)
qed

theorem solver_outcome_witness:
  "(\<exists>r. simular_refrigerador CP_lineal 20 4 (- 0.08) 0.75 15 = Inr r) \<and>
   (\<exists>r. simular_refrigerador CP_lineal 20 4 0.08 1.5 15 = Inr r) \<and>
   (\<exists>r. simular_refrigerador CP_lineal 20 4 0.08 0.75 (- 5) = Inr r)"
proof (intro conjI)
  show "\<exists>r. simular_refrigerador CP_lineal 20 4 (- 0.08) 0.75 15 = Inr r"
    by (rule iffD2 [OF conjunct1 [OF solver_outcome]], rule exI [of _ 402000],
        rule exI [of _ 1700], rule exI [of _ 308150], rule exI [of _ 417500],
        rule exI [of _ "15455 / 9"], rule exI [of _ 252500], rule exI [of _ "6163 / 20"],
        rule exI [of _ 277150], rule exI [of _ "93 / 392"], rule exI [of _ "18799 / 60"],
        rule exI [of _ 1000], rule exI [of _ "3605 / 3"])
      (simp add: CP_lineal_def h_liq_def h_vap_def)
  show "\<exists>r. simular_refrigerador CP_lineal 20 4 0.08 1.5 15 = Inr r"
    by (rule iffD2 [OF conjunct1 [OF solver_outcome]], rule exI [of _ 402000],
        rule exI [of _ 1700], rule exI [of _ 308150], rule exI [of _ 417500],
        rule exI [of _ "15145 / 9"], rule exI [of _ 252500], rule exI [of _ "6163 / 20"],
        rule exI [of _ 277150], rule exI [of _ "93 / 392"], rule exI [of _ "18179 / 60"],
        rule exI [of _ 1000], rule exI [of _ "3605 / 3"])
      (simp add: CP_lineal_def h_liq_def h_vap_def)
  show "\<exists>r. simular_refrigerador CP_lineal 20 4 0.08 0.75 (- 5) = Inr r"
    by (rule iffD2 [OF conjunct1 [OF solver_outcome]], rule exI [of _ 402000],
        rule exI [of _ 1700], rule exI [of _ 288150], rule exI [of _ 407500],
        rule exI [of _ "15355 / 9"], rule exI [of _ 222500], rule exI [of _ "5763 / 20"],
        rule exI [of _ 277150], rule exI [of _ "33 / 392"], rule exI [of _ "17399 / 60"],
        rule exI [of _ 1000], rule exI [of _ "3305 / 3"])
      (simp add: CP_lineal_def h_liq_def h_vap_def)
qed

subsection \<open>Energy balance\<close>

text \<open>
  Claim C3. For every cycle the solver returns, the compressor work plus the evaporator
  heat equals the heat rejected in the condenser, \<open>m (h2 - h3)\<close>: the reported work is
  \<open>m (h2 - h1)\<close> and the reported heat \<open>m (h1 - h4)\<close> (both in kW, hence the factor
  1000), and the throttling is isenthalpic, \<open>h4 = h3\<close>. Over the reals the balance is
  exact.
\<close>

theorem energy_balance:
  assumes "simular_refrigerador CP Ta Ti m eta dT = Inr r"
  shows "\<exists>W Q e1 e2 e3 e4.
     scalar r ''Trabajo_Compresor_kW'' = Some W \<and> scalar r ''Calor_Extraido_kW'' = Some Q \<and>
     states r 1 = Some e1 \<and> states r 2 = Some e2 \<and> states r 3 = Some e3 \<and> states r 4 = Some e4 \<and>
     1000 * W = m * (st_h e2 - st_h e1) \<and> 1000 * Q = m * (st_h e1 - st_h e4) \<and>
     st_h e4 = st_h e3 \<and>
     1000 * W + 1000 * Q = m * (st_h e2 - st_h e3)"
proof -
  from assms obtain h1 h2 h3 s1 s2 s3 s4 P2 P4 T2 T3 x4 c where
    r: "r = \<lparr>scalar =
            [''Trabajo_Compresor_kW'' \<mapsto> m * (h2 - h1) / 1000,
             ''Calor_Extraido_kW'' \<mapsto> m * (h1 - h3) / 1000,
             ''COP'' \<mapsto> c,
             ''Calidad_Evap'' \<mapsto> x4,
             ''Temp_Descarga_C'' \<mapsto> T2 - 273.15,
             ''Flujo_Masico_kg_s'' \<mapsto> m],
          states =
            [1 \<mapsto> \<lparr>st_P = P4, st_T = Ti + 273.15, st_h = h1, st_s = s1,
                    st_desc = ''Entrada Compresor''\<rparr>,
             2 \<mapsto> \<lparr>st_P = P2, st_T = T2, st_h = h2, st_s = s2,
                    st_desc = ''Entrada Condensador''\<rparr>,
             3 \<mapsto> \<lparr>st_P = P2, st_T = T3, st_h = h3, st_s = s3,
                    st_desc = ''Salida Condensador''\<rparr>,
             4 \<mapsto> \<lparr>st_P = P4, st_T = Ti + 273.15, st_h = h3, st_s = s4,
                    st_desc = ''Entrada Evaporador''\<rparr>]\<rparr>"
    unfolding simular_refrigerador_Inr_iff by blast
  show ?thesis
    unfolding r
    by (rule exI [of _ "m * (h2 - h1) / 1000"], rule exI [of _ "m * (h1 - h3) / 1000"])
       (simp add: field_simps)
qed

theorem energy_balance_witness:
  "simular_refrigerador CP_lineal 20 4 0.08 0.75 15 = Inr resultado_nominal \<and>
   (\<exists>W Q e1 e2 e3 e4.
     scalar resultado_nominal ''Trabajo_Compresor_kW'' = Some W \<and>
     scalar resultado_nominal ''Calor_Extraido_kW'' = Some Q \<and>
     states resultado_nominal 1 = Some e1 \<and> states resultado_nominal 2 = Some e2 \<and>
     states resultado_nominal 3 = Some e3 \<and> states resultado_nominal 4 = Some e4 \<and>
     1000 * W = 0.08 * (st_h e2 - st_h e1) \<and> 1000 * Q = 0.08 * (st_h e1 - st_h e4) \<and>
     st_h e4 = st_h e3 \<and>
     1000 * W + 1000 * Q = 0.08 * (st_h e2 - st_h e3))"
  using energy_balance [OF simular_nominal] simular_nominal by simp

subsection \<open>Real outlet enthalpy\<close>

text \<open>
  Claim C4 says that \<open>h2 \<ge> h2_ideal\<close> for every efficiency below 1. At an inverted
  temperature lift the isentropic step lowers the enthalpy (\<open>h2_ideal < h1\<close>), and at
  efficiency 0.75 the real outlet enthalpy is below the ideal one.
\<close>

theorem real_outlet_enthalpy_counterexample:
  "simular_refrigerador CP_lineal (-30) 4 0.08 0.75 15 = Inr resultado_lift_invertido \<and>
   CP_lineal ''H'' ''T'' (4 + 273.15) ''Q'' 1 ''R134a'' = Some 402000 \<and>
   CP_lineal ''S'' ''T'' (4 + 273.15) ''Q'' 1 ''R134a'' = Some 1700 \<and>
   CP_lineal ''P'' ''T'' (-30 + 273.15 + 15) ''Q'' 0 ''R134a'' = Some 258150 \<and>
   CP_lineal ''H'' ''P'' 258150 ''S'' 1700 ''R134a'' = Some 392500 \<and>
   map_option st_h (states resultado_lift_invertido 2) = Some (1168000 / 3) \<and>
   (1168000 / 3 :: real) < 392500"
  by (simp add: solver_eval resultado_lift_invertido_def)

text \<open>
  Claim C4, as the code has it. For every returned cycle,
  \<open>h2 = h1 + (h2_ideal - h1) / \<eta>\<close>. For \<open>0 < \<eta> < 1\<close> this is \<open>\<ge> h2_ideal\<close> when the
  isentropic step does not lower the enthalpy (\<open>h1 \<le> h2_ideal\<close>), and below
  \<open>h2_ideal\<close> when it does. At \<open>\<eta> = 1\<close>, \<open>h2 = h2_ideal\<close>.
\<close>

theorem real_outlet_enthalpy:
  assumes "simular_refrigerador CP Ta Ti m eta dT = Inr r"
  shows "\<exists>h1 s1 P2 h2_ideal e2.
     CP ''H'' ''T'' (Ti + 273.15) ''Q'' 1 ''R134a'' = Some h1 \<and>
     CP ''S'' ''T'' (Ti + 273.15) ''Q'' 1 ''R134a'' = Some s1 \<and>
     CP ''P'' ''T'' (Ta + 273.15 + dT) ''Q'' 0 ''R134a'' = Some P2 \<and>
     CP ''H'' ''P'' P2 ''S'' s1 ''R134a'' = Some h2_ideal \<and>
     states r 2 = Some e2 \<and>
     st_h e2 = h1 + (h2_ideal - h1) / eta \<and>
     (0 < eta \<and> eta < 1 \<and> h1 \<le> h2_ideal \<longrightarrow> h2_ideal \<le> st_h e2) \<and>
     (0 < eta \<and> eta < 1 \<and> h2_ideal < h1 \<longrightarrow> st_h e2 < h2_ideal) \<and>
     (eta = 1 \<longrightarrow> st_h e2 = h2_ideal)"
proof -
  from assms obtain h1 s1 P2 h2i e2 where
    q: "CP ''H'' ''T'' (Ti + 273.15) ''Q'' 1 ''R134a'' = Some h1"
       "CP ''S'' ''T'' (Ti + 273.15) ''Q'' 1 ''R134a'' = Some s1"
       "CP ''P'' ''T'' (Ta + 273.15 + dT) ''Q'' 0 ''R134a'' = Some P2"
       "CP ''H'' ''P'' P2 ''S'' s1 ''R134a'' = Some h2i"
    and e2: "states r 2 = Some e2" "st_h e2 = h1 + (h2i - h1) / eta"
    unfolding simular_refrigerador_Inr_iff by force
  have up: "h2i \<le> h1 + (h2i - h1) / eta" if "0 < eta" "eta < 1" "h1 \<le> h2i"
    using div_eta_ge [of "h2i - h1" eta] that by simp
  have down: "h1 + (h2i - h1) / eta < h2i" if "0 < eta" "eta < 1" "h2i < h1"
    using div_eta_lt [of "h2i - h1" eta] that by simp
  show ?thesis
    using q e2 up down by auto
qed

theorem real_outlet_enthalpy_witness:
  "simular_refrigerador CP_lineal 20 4 0.08 0.75 15 = Inr resultado_nominal \<and>
   (\<exists>e2. CP_lineal ''H'' ''T'' (4 + 273.15) ''Q'' 1 ''R134a'' = Some 402000 \<and>
     CP_lineal ''H'' ''P'' 308150 ''S'' 1700 ''R134a'' = Some 417500 \<and>
     states resultado_nominal 2 = Some e2 \<and>
     st_h e2 = 402000 + (417500 - 402000) / 0.75 \<and> 417500 \<le> st_h e2)"
  using real_outlet_enthalpy [OF simular_nominal] simular_nominal
  by (simp add: CP_lineal_def h_liq_def h_vap_def)

subsection \<open>Outlet entropy\<close>

text \<open>
  Claim C7 says that an outlet entropy below the inlet entropy attaches a warning to
  the result. At efficiency 2 the outlet entropy is below the inlet entropy, and the
  returned dictionary holds the six indicators and the four states, nothing else.
\<close>

theorem outlet_entropy_counterexample:
  "simular_refrigerador CP_lineal 20 4 0.08 2 15 = Inr resultado_eta_2 \<and>
   map_option st_s (states resultado_eta_2 1) = Some 1700 \<and>
   map_option st_s (states resultado_eta_2 2) = Some (10045 / 6) \<and>
   (10045 / 6 :: real) < 1700 \<and>
   dom (scalar resultado_eta_2) =
     {''Trabajo_Compresor_kW'', ''Calor_Extraido_kW'', ''COP'', ''Calidad_Evap'',
      ''Temp_Descarga_C'', ''Flujo_Masico_kg_s''} \<and>
   dom (states resultado_eta_2) = {1, 2, 3, 4}"
  using simular_eta_2 simular_refrigerador_keys [OF simular_eta_2]
  by (simp add: resultado_eta_2_def)

text \<open>
  Claim C7, as the code has it. The solver reads the outlet entropy \<open>s2\<close> at
  \<open>(P2, h2)\<close> and stores it in state 2 without comparing it with \<open>s1\<close>. Whenever the
  queries resolve and the two divisions are defined, whatever \<open>s1\<close> and \<open>s2\<close> are,
  the result is returned; it holds the six indicators and the four states, and no
  warning.
\<close>

theorem outlet_entropy_unchecked:
  assumes "CP ''H'' ''T'' (Ti + 273.15) ''Q'' 1 ''R134a'' = Some h1"
    and "CP ''S'' ''T'' (Ti + 273.15) ''Q'' 1 ''R134a'' = Some s1"
    and "CP ''P'' ''T'' (Ta + 273.15 + dT) ''Q'' 0 ''R134a'' = Some P2"
    and "CP ''H'' ''P'' P2 ''S'' s1 ''R134a'' = Some h2_ideal"
    and "eta \<noteq> 0"
    and "h2 = h1 + (h2_ideal - h1) / eta"
    and "CP ''S'' ''P'' P2 ''H'' h2 ''R134a'' = Some s2"
    and "CP ''H'' ''P'' P2 ''Q'' 0 ''R134a'' = Some h3"
    and "CP ''T'' ''P'' P2 ''Q'' 0 ''R134a'' = Some T3"
    and "CP ''P'' ''T'' (Ti + 273.15) ''Q'' 1 ''R134a'' = Some P4"
    and "CP ''Q'' ''P'' P4 ''H'' h3 ''R134a'' = Some x4"
    and "m * (h2 - h1) \<noteq> 0"
    and "CP ''T'' ''H'' h2 ''P'' P2 ''R134a'' = Some T2"
    and "CP ''S'' ''P'' P2 ''Q'' 0 ''R134a'' = Some s3"
    and "CP ''S'' ''P'' P4 ''H'' h3 ''R134a'' = Some s4"
  shows "\<exists>r. simular_refrigerador CP Ta Ti m eta dT = Inr r \<and>
             map_option st_s (states r 1) = Some s1 \<and>
             map_option st_s (states r 2) = Some s2 \<and>
             dom (scalar r) =
               {''Trabajo_Compresor_kW'', ''Calor_Extraido_kW'', ''COP'', ''Calidad_Evap'',
                ''Temp_Descarga_C'', ''Flujo_Masico_kg_s''} \<and>
             dom (states r) = {1, 2, 3, 4}"
proof -
  have "\<exists>r. simular_refrigerador CP Ta Ti m eta dT = Inr r"
    unfolding simular_refrigerador_Inr_iff using assms by simp
  then obtain r where r: "simular_refrigerador CP Ta Ti m eta dT = Inr r" ..
  from r assms have "map_option st_s (states r 1) = Some s1"
    "map_option st_s (states r 2) = Some s2"
    unfolding simular_refrigerador_Inr_iff by auto
  with r simular_refrigerador_keys [OF r] show ?thesis by blast
qed

theorem outlet_entropy_unchecked_witness:
  "(10045 / 6 :: real) < 1700 \<and>
   (\<exists>r. simular_refrigerador CP_lineal 20 4 0.08 2 15 = Inr r \<and>
        map_option st_s (states r 1) = Some 1700 \<and>
        map_option st_s (states r 2) = Some (10045 / 6) \<and>
        dom (scalar r) =
          {''Trabajo_Compresor_kW'', ''Calor_Extraido_kW'', ''COP'', ''Calidad_Evap'',
           ''Temp_Descarga_C'', ''Flujo_Masico_kg_s''} \<and>
        dom (states r) = {1, 2, 3, 4})"
proof -
  have q: "CP_lineal ''H'' ''T'' (4 + 273.15) ''Q'' 1 ''R134a'' = Some 402000"
    "CP_lineal ''S'' ''T'' (4 + 273.15) ''Q'' 1 ''R134a'' = Some 1700"
    "CP_lineal ''P'' ''T'' (20 + 273.15 + 15) ''Q'' 0 ''R134a'' = Some 308150"
    "CP_lineal ''H'' ''P'' 308150 ''S'' 1700 ''R134a'' = Some 417500"
    "(2 :: real) \<noteq> 0"
    "(409750 :: real) = 402000 + (417500 - 402000) / 2"
    "CP_lineal ''S'' ''P'' 308150 ''H'' 409750 ''R134a'' = Some (10045 / 6)"
    "CP_lineal ''H'' ''P'' 308150 ''Q'' 0 ''R134a'' = Some 252500"
    "CP_lineal ''T'' ''P'' 308150 ''Q'' 0 ''R134a'' = Some (6163 / 20)"
    "CP_lineal ''P'' ''T'' (4 + 273.15) ''Q'' 1 ''R134a'' = Some 277150"
    "CP_lineal ''Q'' ''P'' 277150 ''H'' 252500 ''R134a'' = Some (93 / 392)"
    "(0.08 :: real) * (409750 - 402000) \<noteq> 0"
    "CP_lineal ''T'' ''H'' 409750 ''P'' 308150 ''R134a'' = Some (1502 / 5)"
    "CP_lineal ''S'' ''P'' 308150 ''Q'' 0 ''R134a'' = Some 1000"
    "CP_lineal ''S'' ''P'' 277150 ''H'' 252500 ''R134a'' = Some (3605 / 3)"
    by (simp_all add: CP_lineal_def h_liq_def h_vap_def)
  show ?thesis
    using outlet_entropy_unchecked [where CP = CP_lineal and m = "0.08", OF q] by simp
qed

subsection \<open>Evaporator-inlet quality\<close>

text \<open>
  Claim C8 says that a quality outside \<open>[0, 1]\<close> is reported as an anomaly. At an
  inverted temperature lift the quality is negative; it is returned as the indicator
  \<^verbatim>\<open>Calidad_Evap\<close> among the six indicators, and nothing in the dictionary marks it.
\<close>

theorem evaporator_quality_counterexample:
  "simular_refrigerador CP_lineal (-30) 4 0.08 0.75 15 = Inr resultado_lift_invertido \<and>
   scalar resultado_lift_invertido ''Calidad_Evap'' = Some (- (57 / 392)) \<and>
   (- (57 / 392) :: real) < 0 \<and>
   dom (scalar resultado_lift_invertido) =
     {''Trabajo_Compresor_kW'', ''Calor_Extraido_kW'', ''COP'', ''Calidad_Evap'',
      ''Temp_Descarga_C'', ''Flujo_Masico_kg_s''} \<and>
   dom (states resultado_lift_invertido) = {1, 2, 3, 4}"
  using simular_lift_invertido simular_refrigerador_keys [OF simular_lift_invertido]
  by (simp add: resultado_lift_invertido_def)

text \<open>
  Claim C8, as the code has it. The solver never clamps the quality: for every
  returned cycle, \<^verbatim>\<open>Calidad_Evap\<close> is the provider's answer at \<open>(P4, h4)\<close>, with
  \<open>h4 = h3\<close>, unchanged, inside \<open>[0, 1]\<close> or not; the dictionary holds the six
  indicators and the four states, with no separate mark of an anomaly.
\<close>

theorem evaporator_quality_unclamped:
  assumes "simular_refrigerador CP Ta Ti m eta dT = Inr r"
  shows "\<exists>e3 e4 x4.
     states r 3 = Some e3 \<and> states r 4 = Some e4 \<and> st_h e4 = st_h e3 \<and>
     CP ''P'' ''T'' (Ti + 273.15) ''Q'' 1 ''R134a'' = Some (st_P e4) \<and>
     CP ''Q'' ''P'' (st_P e4) ''H'' (st_h e4) ''R134a'' = Some x4 \<and>
     scalar r ''Calidad_Evap'' = Some x4 \<and>
     dom (scalar r) =
       {''Trabajo_Compresor_kW'', ''Calor_Extraido_kW'', ''COP'', ''Calidad_Evap'',
        ''Temp_Descarga_C'', ''Flujo_Masico_kg_s''} \<and>
     dom (states r) = {1, 2, 3, 4}"
proof -
  from assms have "\<exists>e3 e4 x4.
     states r 3 = Some e3 \<and> states r 4 = Some e4 \<and> st_h e4 = st_h e3 \<and>
     CP ''P'' ''T'' (Ti + 273.15) ''Q'' 1 ''R134a'' = Some (st_P e4) \<and>
     CP ''Q'' ''P'' (st_P e4) ''H'' (st_h e4) ''R134a'' = Some x4 \<and>
     scalar r ''Calidad_Evap'' = Some x4"
    unfolding simular_refrigerador_Inr_iff by force
  with simular_refrigerador_keys [OF assms] show ?thesis by blast
qed

theorem evaporator_quality_unclamped_witness:
  "simular_refrigerador CP_lineal (-30) 4 0.08 0.75 15 = Inr resultado_lift_invertido \<and>
   (\<exists>e4. states resultado_lift_invertido 4 = Some e4 \<and>
      CP_lineal ''Q'' ''P'' (st_P e4) ''H'' (st_h e4) ''R134a'' = Some (- (57 / 392)) \<and>
      scalar resultado_lift_invertido ''Calidad_Evap'' = Some (- (57 / 392)))"
  using evaporator_quality_unclamped [OF simular_lift_invertido] simular_lift_invertido
  by (simp add: resultado_lift_invertido_def CP_lineal_def h_liq_def h_vap_def)

section \<open>Properties of the telemetry generator\<close>

subsection \<open>Classification of the operating state\<close>

lemma dict_get_Inr_iff: "dict_get d k = Inr v \<longleftrightarrow> d k = Some v"
  by (simp add: dict_get_def split: option.splits)

lemma intento_Inr:
  assumes "fst (intento R CP fecha id_eq params t_ambiente delta_t_cond eta g) = Inr reg"
  shows "\<exists>res c. simular_refrigerador CP t_ambiente (t_interior params) (flujo params) eta
                    delta_t_cond = Inr res \<and>
                 scalar res ''COP'' = Some c \<and>
                 estado reg = clasificar_estado delta_t_cond c \<and>
                 timestamp reg = fecha \<and> id_equipo reg = id_eq"
  using assms
  by (auto simp add: intento_def bind_err_Inr_iff dict_get_Inr_iff Let_def
      split: sum.splits prod.splits)

lemma intento_nominal:
  "\<exists>reg. fst (intento R_contador CP_lineal 0 ''CAMARA_02_LACTEOS''
       \<lparr>t_interior = 4, flujo = 0.08\<rparr> 20 15 0.75 0) = Inr reg"
  by (simp add: intento_def solver_eval dict_get_def rnd_uniform_def R_contador_def)

text \<open>
  Claim C5. The operating state is a function of the condenser \<open>\<Delta>T\<close> and the COP
  alone: \<^verbatim>\<open>ALARMA\<close> exactly when \<open>\<Delta>T > 25\<close> or \<open>COP < 2.0\<close>; otherwise
  \<^verbatim>\<open>ADVERTENCIA\<close> exactly when \<open>\<Delta>T > 20\<close> or \<open>COP < 2.5\<close>; otherwise
  \<^verbatim>\<open>NORMAL\<close>. The alarm conditions come first, so an input that meets both is an
  alarm; \<open>\<Delta>T = 30\<close> with \<open>COP = 1.8\<close> is \<^verbatim>\<open>ALARMA\<close>. Every record the generator
  appends carries this classification of the \<open>\<Delta>T\<close> passed to the solver and of the
  COP the solver returned.
\<close>

theorem state_classifier:
  "(clasificar_estado delta_t c = ''ALARMA'' \<longleftrightarrow> delta_t > 25 \<or> c < 2.0) \<and>
   (clasificar_estado delta_t c = ''ADVERTENCIA'' \<longleftrightarrow>
      \<not> (delta_t > 25 \<or> c < 2.0) \<and> (delta_t > 20 \<or> c < 2.5)) \<and>
   (clasificar_estado delta_t c = ''NORMAL'' \<longleftrightarrow>
      \<not> (delta_t > 25 \<or> c < 2.0) \<and> \<not> (delta_t > 20 \<or> c < 2.5)) \<and>
   clasificar_estado 30 1.8 = ''ALARMA'' \<and>
   (fst (intento R CP fecha id_eq params t_ambiente delta_t eta g) = Inr reg \<longrightarrow>
      (\<exists>res cop_ciclo.
         simular_refrigerador CP t_ambiente (t_interior params) (flujo params) eta delta_t
           = Inr res \<and>
         scalar res ''COP'' = Some cop_ciclo \<and>
         estado reg = clasificar_estado delta_t cop_ciclo))"
proof -
  have "fst (intento R CP fecha id_eq params t_ambiente delta_t eta g) = Inr reg \<longrightarrow>
      (\<exists>res cop_ciclo.
         simular_refrigerador CP t_ambiente (t_interior params) (flujo params) eta delta_t
           = Inr res \<and>
         scalar res ''COP'' = Some cop_ciclo \<and>
         estado reg = clasificar_estado delta_t cop_ciclo)"
  proof
    assume "fst (intento R CP fecha id_eq params t_ambiente delta_t eta g) = Inr reg"
    from intento_Inr [OF this] show "\<exists>res cop_ciclo.
         simular_refrigerador CP t_ambiente (t_interior params) (flujo params) eta delta_t
           = Inr res \<and>
         scalar res ''COP'' = Some cop_ciclo \<and>
         estado reg = clasificar_estado delta_t cop_ciclo"
      by blast
  qed
  then show ?thesis
    by (simp add: clasificar_estado_def)
qed

theorem state_classifier_witness:
  "\<exists>reg res cop_ciclo.
     fst (intento R_contador CP_lineal 0 ''CAMARA_02_LACTEOS''
       \<lparr>t_interior = 4, flujo = 0.08\<rparr> 20 15 0.75 0) = Inr reg \<and>
     simular_refrigerador CP_lineal 20 4 0.08 0.75 15 = Inr res \<and>
     scalar res ''COP'' = Some cop_ciclo \<and>
     estado reg = clasificar_estado 15 cop_ciclo"
proof -
  from intento_nominal obtain reg where
    reg: "fst (intento R_contador CP_lineal 0 ''CAMARA_02_LACTEOS''
       \<lparr>t_interior = 4, flujo = 0.08\<rparr> 20 15 0.75 0) = Inr reg" ..
  with state_classifier [of 15 _ R_contador CP_lineal 0 "''CAMARA_02_LACTEOS''"
      "\<lparr>t_interior = 4, flujo = 0.08\<rparr>" 20 "0.75" 0 reg]
  show ?thesis by auto
qed

subsection \<open>The parameters passed to the solver\<close>

lemma rnd_uniform_bounds:
  assumes "0 \<le> fst (rnd_random R g)" "fst (rnd_random R g) < 1" "a \<le> b"
  shows "a \<le> fst (rnd_uniform R a b g)" "fst (rnd_uniform R a b g) \<le> b"
proof -
  obtain u g' where u: "rnd_random R g = (u, g')" by (cases "rnd_random R g")
  with assms have u01: "0 \<le> u" "u < 1" by simp_all
  have "0 \<le> (b - a) * u" using u01 assms(3) by simp
  moreover have "(b - a) * u \<le> (b - a) * 1"
    using u01 assms(3) by (intro mult_left_mono) simp_all
  ultimately show "a \<le> fst (rnd_uniform R a b g)" "fst (rnd_uniform R a b g) \<le> b"
    by (simp_all add: rnd_uniform_def u)
qed

lemma apertura_nonneg:
  assumes "\<And>g. 0 \<le> fst (rnd_random R g) \<and> fst (rnd_random R g) < 1"
  shows "0 \<le> fst (simular_evento_apertura_puerta R g)"
proof -
  obtain p g' where p: "rnd_random R g = (p, g')" by (cases "rnd_random R g")
  have "3 \<le> fst (rnd_uniform R 3 8 g')" "1 \<le> fst (rnd_uniform R 1 3 g')"
    using rnd_uniform_bounds(1) [of R g'] assms by simp_all
  then show ?thesis
    by (simp add: simular_evento_apertura_puerta_def p)
qed

lemma fouling_ge:
  fixes d :: int
  assumes "0 \<le> ap"
  shows "(15::real) \<le> (if d \<le> 2 then (15 + ap) * (1 + of_int (2 - d) * 0.7) else 15 + ap)"
proof (cases "d \<le> 2")
  case True
  then have "(0::real) \<le> of_int (2 - d) * 0.7" by simp
  then have "1 \<le> 1 + of_int (2 - d) * (0.7::real)" by simp
  then have le: "(15 + ap) * 1 \<le> (15 + ap) * (1 + of_int (2 - d) * 0.7)"
    using assms by (intro mult_left_mono) simp_all
  have "(15::real) \<le> (15 + ap) * 1" using assms by simp
  also note le
  finally have "15 \<le> (15 + ap) * (1 + of_int (2 - d) * 0.7)" .
  with True show ?thesis by (simp only: if_True)
next
  case False
  with assms show ?thesis by simp
qed

lemma parametros_operacion_delta:
  "fst (fst (parametros_operacion R i g)) =
     (if int DIAS_SIMULACION - int (i div 24) \<le> 2
      then (15 + fst (simular_evento_apertura_puerta R g)) *
           (1 + of_int (2 - (int DIAS_SIMULACION - int (i div 24))) * 0.7)
      else 15 + fst (simular_evento_apertura_puerta R g))"
  by (simp add: parametros_operacion_def Let_def split: prod.splits)

lemma parametros_operacion_eta:
  "snd (fst (parametros_operacion R i g)) =
     max 0.60 (min 0.85 (0.75 +
       fst (rnd_uniform R (-0.03) 0.02 (snd (simular_evento_apertura_puerta R g)))))"
  by (simp add: parametros_operacion_def Let_def split: prod.splits)

lemma R_contador_random_range:
  "0 \<le> fst (rnd_random R_contador g) \<and> fst (rnd_random R_contador g) < 1"
  by (simp add: R_contador_def)

text \<open>
  Claim C10. With \<^verbatim>\<open>random.random()\<close> in \<open>[0, 1)\<close>, the parameters that any tick
  \<open>i\<close> passes to the solver for any unit of \<^verbatim>\<open>EQUIPOS\<close>, from any generator state:
  the mass flow is 0.08 or 0.12; the efficiency is \<open>0.75\<close> plus the jitter (the clamp
  to \<open>[0.60, 0.85]\<close> does not bind) and lies in \<open>[0.72, 0.77]\<close>; the condenser
  \<open>\<Delta>T\<close> is at least 15.
\<close>

theorem generator_parameters:
  assumes "\<And>g. 0 \<le> fst (rnd_random R g) \<and> fst (rnd_random R g) < 1"
    and "(id_eq, params) \<in> set EQUIPOS"
    and "parametros_operacion R i g = ((delta_t_cond, eta), g')"
  shows "(flujo params = 0.08 \<or> flujo params = 0.12) \<and>
         eta = 0.75 + fst (rnd_uniform R (-0.03) 0.02 (snd (simular_evento_apertura_puerta R g))) \<and>
         0.72 \<le> eta \<and> eta \<le> 0.77 \<and>
         15 \<le> delta_t_cond"
proof -
  define v where "v = fst (rnd_uniform R (-0.03) 0.02 (snd (simular_evento_apertura_puerta R g)))"
  have vb: "-0.03 \<le> v" "v \<le> 0.02"
    unfolding v_def
    using rnd_uniform_bounds [of R "snd (simular_evento_apertura_puerta R g)" "-0.03" "0.02"]
      assms(1) by simp_all
  have "eta = snd (fst (parametros_operacion R i g))" using assms(3) by simp
  then have "eta = max 0.60 (min 0.85 (0.75 + v))"
    unfolding parametros_operacion_eta v_def .
  with vb have eta: "eta = 0.75 + v" by simp
  have "delta_t_cond = fst (fst (parametros_operacion R i g))" using assms(3) by simp
  then have dt: "15 \<le> delta_t_cond"
    unfolding parametros_operacion_delta
    using fouling_ge [OF apertura_nonneg [OF assms(1)]] by simp
  have "flujo params = 0.08 \<or> flujo params = 0.12"
    using assms(2) by (auto simp add: EQUIPOS_def)
  with eta vb dt show ?thesis
    unfolding v_def by simp
qed

theorem generator_parameters_witness:
  "(''CAMARA_01_CARNES'', \<lparr>t_interior = -18, flujo = 0.12\<rparr>) \<in> set EQUIPOS \<and>
   parametros_operacion R_contador 150 1 = ((16.4 * 1.7, 0.735), 4) \<and>
   (0.72 :: real) \<le> 0.735 \<and> (0.735 :: real) \<le> 0.77 \<and> (15 :: real) \<le> 16.4 * 1.7"
proof -
  have e: "(''CAMARA_01_CARNES'', \<lparr>t_interior = -18, flujo = 0.12\<rparr>) \<in> set EQUIPOS"
    by (simp add: EQUIPOS_def)
  have p: "parametros_operacion R_contador 150 1 = ((16.4 * 1.7, 0.735), 4)"
    by (simp add: parametros_operacion_def simular_evento_apertura_puerta_def rnd_uniform_def
        R_contador_def DIAS_SIMULACION_def Let_def)
  from generator_parameters [OF R_contador_random_range e p] e p
  show ?thesis by simp
qed

subsection \<open>The start of a run\<close>

text \<open>
  The start of a run over the counter generator: the first tick of a run read at
  second 63900000000 falls on hour 8 of day 326, and one hour later on hour 9.
\<close>

lemma hora_dia_a: "hour 63899395200 = 8 \<and> tm_yday 63899395200 = 326"
  by (simp add: hour_def tm_yday_def Let_def)


lemma temperatura_a: "calcular_temperatura_ambiente R_contador 8 326 0 = (9.4, 1)"
  by (simp add: calcular_temperatura_ambiente_def R_contador_def py_round_def round_half_even_def Let_def)


lemma parametros_a: "parametros_operacion R_contador 0 1 = ((16.4, 0.735), 4)"
  by (simp add: parametros_operacion_def simular_evento_apertura_puerta_def rnd_uniform_def
        R_contador_def DIAS_SIMULACION_def Let_def)


subsection \<open>Failures of single ticks\<close>

lemma intento_Inl:
  assumes "simular_refrigerador CP t_ambiente (t_interior params) (flujo params) eta delta_t_cond = Inl e"
  shows "intento R CP fecha id_eq params t_ambiente delta_t_cond eta g = (Inl e, g)"
  using assms by (simp add: intento_def)

lemma intento_ok:
  assumes "simular_refrigerador CP t_ambiente (t_interior params) (flujo params) eta delta_t_cond = Inr res"
  shows "\<exists>reg. intento R CP fecha id_eq params t_ambiente delta_t_cond eta g =
           (Inr reg, snd (rnd_uniform R (-0.5) 0.5 g)) \<and>
         timestamp reg = fecha \<and> id_equipo reg = id_eq \<and> t_ambiente_C reg = t_ambiente"
proof -
  have "''COP'' \<in> dom (scalar res)" "''Temp_Descarga_C'' \<in> dom (scalar res)"
    "''Trabajo_Compresor_kW'' \<in> dom (scalar res)" "''Calor_Extraido_kW'' \<in> dom (scalar res)"
    "''Calidad_Evap'' \<in> dom (scalar res)"
    unfolding simular_refrigerador_keys(1) [OF assms] by simp_all
  then obtain a1 a2 a3 a4 a5 where
    "scalar res ''COP'' = Some a1" "scalar res ''Temp_Descarga_C'' = Some a2"
    "scalar res ''Trabajo_Compresor_kW'' = Some a3" "scalar res ''Calor_Extraido_kW'' = Some a4"
    "scalar res ''Calidad_Evap'' = Some a5" by blast
  then show ?thesis
    by (simp add: intento_def assms dict_get_def Let_def split: prod.splits)
qed

lemma extiende_refl: "extiende 0 c c"
  by (simp add: extiende_def)

lemma extiende_trans:
  assumes "extiende n a b" "extiende k b c"
  shows "extiende (n + k) a c"
proof -
  from assms(1) obtain rs es where 1: "registros b = registros a @ rs"
    "errores b = errores a @ es" "length rs + length es = n"
    unfolding extiende_def by blast
  from assms(2) obtain rs' es' where 2: "registros c = registros b @ rs'"
    "errores c = errores b @ es'" "length rs' + length es' = k"
    unfolding extiende_def by blast
  have "registros c = registros a @ (rs @ rs')" "errores c = errores a @ (es @ es')"
    "length (rs @ rs') + length (es @ es') = n + k"
    using 1 2 by simp_all
  then show ?thesis unfolding extiende_def by blast
qed

lemma extiende_gen: "extiende n (c\<lparr>gen := x\<rparr>) c' \<longleftrightarrow> extiende n c c'"
  by (simp add: extiende_def)

lemma extiende_procesar_equipo:
  "extiende 1 c (procesar_equipo R CP fecha i t_ambiente eq c)"
  by (simp add: procesar_equipo_def extiende_def split: prod.splits sum.splits)

lemma extiende_fold_equipo:
  "extiende (length eqs) c (fold (procesar_equipo R CP fecha i t_ambiente) eqs c)"
proof (induction eqs arbitrary: c)
  case Nil
  then show ?case by (simp add: extiende_refl)
next
  case (Cons eq eqs)
  from extiende_trans [OF extiende_procesar_equipo
      Cons [of "procesar_equipo R CP fecha i t_ambiente eq c"]]
  show ?case by simp
qed

lemma procesar_tick_fold:
  assumes "calcular_temperatura_ambiente R
       (hour (fecha_inicio + 3600 * int (i * FRECUENCIA_HORAS)))
       (tm_yday (fecha_inicio + 3600 * int (i * FRECUENCIA_HORAS))) (gen c) = (ta, g1)"
  shows "procesar_tick R CP fecha_inicio i c =
     fold (procesar_equipo R CP (fecha_inicio + 3600 * int (i * FRECUENCIA_HORAS)) i ta)
       EQUIPOS (c\<lparr>gen := g1\<rparr>)"
  unfolding procesar_tick_def Let_def assms prod.case ..

lemma extiende_procesar_tick:
  "extiende (length EQUIPOS) c (procesar_tick R CP fecha_inicio i c)"
proof -
  obtain ta g1 where t: "calcular_temperatura_ambiente R
       (hour (fecha_inicio + 3600 * int (i * FRECUENCIA_HORAS)))
       (tm_yday (fecha_inicio + 3600 * int (i * FRECUENCIA_HORAS))) (gen c) = (ta, g1)"
    by (cases "calcular_temperatura_ambiente R
       (hour (fecha_inicio + 3600 * int (i * FRECUENCIA_HORAS)))
       (tm_yday (fecha_inicio + 3600 * int (i * FRECUENCIA_HORAS))) (gen c)")
  show ?thesis
    unfolding procesar_tick_fold [OF t]
    using extiende_fold_equipo [of EQUIPOS "c\<lparr>gen := g1\<rparr>"]
    by (simp only: extiende_gen)
qed

lemma extiende_fold_tick:
  "extiende (length ticks * length EQUIPOS) c (fold (procesar_tick R CP fecha_inicio) ticks c)"
proof (induction ticks arbitrary: c)
  case Nil
  then show ?case by (simp add: extiende_refl)
next
  case (Cons i ticks)
  from extiende_trans [OF extiende_procesar_tick Cons [of "procesar_tick R CP fecha_inicio i c"]]
  show ?case by (simp add: add.commute)
qed

lemma generar_datos_desde_tick:
  assumes "i < 168"
  shows "generar_datos R CP ahora g =
     fold (procesar_tick R CP (ahora - 86400 * int DIAS_SIMULACION)) [Suc i..<168]
       (procesar_tick R CP (ahora - 86400 * int DIAS_SIMULACION) i
          (antes_del_tick R CP ahora g i))"
proof -
  have "[0..<168] = [0..<i] @ i # [Suc i..<168]"
    using assms upt_add_eq_append [of 0 i "168 - i"] upt_conv_Cons [of i 168] by simp
  then show ?thesis
    by (simp add: generar_datos_def antes_del_tick_def Let_def DIAS_SIMULACION_def
        FRECUENCIA_HORAS_def)
qed

lemma fold_equipos_desde:
  assumes "j < length eqs"
  shows "fold f eqs c = fold f (drop (Suc j) eqs) (f (eqs ! j) (fold f (take j eqs) c))"
proof -
  have "fold f eqs c = fold f (take j eqs @ eqs ! j # drop (Suc j) eqs) c"
    using id_take_nth_drop [OF assms] by simp
  then show ?thesis by simp
qed

lemma cuenta_antes_del_tick:
  "length (registros (antes_del_tick R CP ahora g i)) +
   length (errores (antes_del_tick R CP ahora g i)) = 3 * i"
  using extiende_fold_tick [of "[0..<i]" "\<lparr>registros = [], errores = [], gen = g\<rparr>" R CP
      "ahora - 86400 * int DIAS_SIMULACION"]
  by (auto simp add: antes_del_tick_def extiende_def EQUIPOS_def)

lemma cuenta_antes_del_equipo:
  assumes "j < 3"
  shows "length (registros (antes_del_equipo R CP ahora g i j)) +
   length (errores (antes_del_equipo R CP ahora g i j)) = 3 * i + j"
proof -
  obtain ta g1 where t: "temperatura_tick R CP ahora g i = (ta, g1)"
    by (cases "temperatura_tick R CP ahora g i")
  have "extiende (length (take j EQUIPOS)) ((antes_del_tick R CP ahora g i)\<lparr>gen := g1\<rparr>)
          (antes_del_equipo R CP ahora g i j)"
    unfolding antes_del_equipo_def t prod.case by (rule extiende_fold_equipo)
  moreover have "length (take j EQUIPOS) = j"
    using assms by (simp add: EQUIPOS_def)
  ultimately show ?thesis
    using cuenta_antes_del_tick [of R CP ahora g i]
    by (auto simp add: extiende_def)
qed

lemma generar_datos_desde_equipo:
  assumes "i < 168" "j < 3" "temperatura_tick R CP ahora g i = (ta, g1)"
  shows "extiende ((2 - j) + (167 - i) * 3)
           (procesar_equipo R CP (fecha_tick ahora i) i ta (EQUIPOS ! j)
              (antes_del_equipo R CP ahora g i j))
           (generar_datos R CP ahora g)"
proof -
  let ?f0 = "ahora - 86400 * int DIAS_SIMULACION"
  let ?c = "antes_del_tick R CP ahora g i"
  let ?d = "antes_del_equipo R CP ahora g i j"
  let ?pe = "procesar_equipo R CP (fecha_tick ahora i) i ta"
  have t: "calcular_temperatura_ambiente R
       (hour (?f0 + 3600 * int (i * FRECUENCIA_HORAS)))
       (tm_yday (?f0 + 3600 * int (i * FRECUENCIA_HORAS))) (gen ?c) = (ta, g1)"
    using assms(3) unfolding temperatura_tick_def fecha_tick_def .
  have j: "j < length EQUIPOS" using assms(2) by (simp add: EQUIPOS_def)
  have tick: "procesar_tick R CP ?f0 i ?c =
      fold ?pe (drop (Suc j) EQUIPOS) (?pe (EQUIPOS ! j) ?d)"
    unfolding procesar_tick_fold [OF t] antes_del_equipo_def assms(3) prod.case
    unfolding fecha_tick_def [symmetric]
    by (rule fold_equipos_desde [OF j])
  have 1: "extiende (length (drop (Suc j) EQUIPOS)) (?pe (EQUIPOS ! j) ?d)
             (procesar_tick R CP ?f0 i ?c)"
    unfolding tick by (rule extiende_fold_equipo)
  have 2: "extiende (length [Suc i..<168] * length EQUIPOS) (procesar_tick R CP ?f0 i ?c)
             (generar_datos R CP ahora g)"
    unfolding generar_datos_desde_tick [OF assms(1)] by (rule extiende_fold_tick)
  have "length (drop (Suc j) EQUIPOS) + length [Suc i..<168] * length EQUIPOS =
          (2 - j) + (167 - i) * 3"
    using assms(1,2) by (simp add: EQUIPOS_def)
  with extiende_trans [OF 1 2] show ?thesis by simp
qed

text \<open>
  Claim C9. Take any run, any tick \<open>i\<close> of the 168 and any unit \<open>j\<close> of the 3, with the
  ambient temperature of the tick and the parameters drawn for the unit from the
  generator state the run has reached. The run has by then produced \<open>3 i + j\<close> records
  and messages. If the solve of this pair raises \<open>e\<close>, the records gathered so far are
  kept, the next thing the run adds is the message with the unit, the tick's datetime
  and \<open>e\<close>, and no record for this pair. If the solve returns, the next thing the run
  adds is one record with the tick's datetime and the unit. In both cases every later
  pair of the grid still yields one record or one message, so the run ends with all
  the records of the pairs that were solved.
\<close>

theorem failure_policy:
  assumes "i < 168" and "j < 3"
    and "EQUIPOS ! j = (id_eq, params)"
    and "temperatura_tick R CP ahora g i = (ta, ga)"
    and "parametros_operacion R i (gen (antes_del_equipo R CP ahora g i j)) = ((dT, eta), gb)"
  shows "length (registros (antes_del_equipo R CP ahora g i j)) +
           length (errores (antes_del_equipo R CP ahora g i j)) = 3 * i + j \<and>
    (case simular_refrigerador CP ta (t_interior params) (flujo params) eta dT of
       Inl e \<Rightarrow>
         (\<exists>rs es.
            registros (generar_datos R CP ahora g) =
              registros (antes_del_equipo R CP ahora g i j) @ rs \<and>
            errores (generar_datos R CP ahora g) =
              errores (antes_del_equipo R CP ahora g i j) @ (id_eq, fecha_tick ahora i, e) # es \<and>
            length rs + length es + (3 * i + j + 1) = 168 * 3)
     | Inr res \<Rightarrow>
         (\<exists>reg rs es.
            registros (generar_datos R CP ahora g) =
              registros (antes_del_equipo R CP ahora g i j) @ reg # rs \<and>
            errores (generar_datos R CP ahora g) =
              errores (antes_del_equipo R CP ahora g i j) @ es \<and>
            timestamp reg = fecha_tick ahora i \<and> id_equipo reg = id_eq \<and>
            length rs + length es + (3 * i + j + 1) = 168 * 3))"
proof -
  let ?d = "antes_del_equipo R CP ahora g i j"
  let ?d' = "procesar_equipo R CP (fecha_tick ahora i) i ta (id_eq, params) ?d"
  have n: "(2 - j) + (167 - i) * 3 + (3 * i + j + 1) = 168 * 3"
    using assms(1,2) by simp
  from generar_datos_desde_equipo [OF assms(1,2,4)] assms(3)
  obtain rs es where ext: "registros (generar_datos R CP ahora g) = registros ?d' @ rs"
    "errores (generar_datos R CP ahora g) = errores ?d' @ es"
    "length rs + length es = (2 - j) + (167 - i) * 3"
    unfolding extiende_def by auto
  have "case simular_refrigerador CP ta (t_interior params) (flujo params) eta dT of
       Inl e \<Rightarrow>
         (\<exists>rs es.
            registros (generar_datos R CP ahora g) = registros ?d @ rs \<and>
            errores (generar_datos R CP ahora g) =
              errores ?d @ (id_eq, fecha_tick ahora i, e) # es \<and>
            length rs + length es + (3 * i + j + 1) = 168 * 3)
     | Inr res \<Rightarrow>
         (\<exists>reg rs es.
            registros (generar_datos R CP ahora g) = registros ?d @ reg # rs \<and>
            errores (generar_datos R CP ahora g) = errores ?d @ es \<and>
            timestamp reg = fecha_tick ahora i \<and> id_equipo reg = id_eq \<and>
            length rs + length es + (3 * i + j + 1) = 168 * 3)"
  proof (cases "simular_refrigerador CP ta (t_interior params) (flujo params) eta dT")
    case (Inl e)
    have "?d' = ?d\<lparr>errores := errores ?d @ [(id_eq, fecha_tick ahora i, e)], gen := gb\<rparr>"
      using assms(5) Inl by (simp add: procesar_equipo_def intento_Inl)
    with ext n have "registros (generar_datos R CP ahora g) = registros ?d @ rs"
      "errores (generar_datos R CP ahora g) = errores ?d @ (id_eq, fecha_tick ahora i, e) # es"
      "length rs + length es + (3 * i + j + 1) = 168 * 3"
      by simp_all
    then show ?thesis unfolding Inl sum.case by blast
  next
    case (Inr res)
    from intento_ok [OF Inr, of R "fecha_tick ahora i" id_eq gb] obtain reg where
      reg: "intento R CP (fecha_tick ahora i) id_eq params ta dT eta gb =
         (Inr reg, snd (rnd_uniform R (-0.5) 0.5 gb))"
        "timestamp reg = fecha_tick ahora i" "id_equipo reg = id_eq"
      by blast
    have "?d' = ?d\<lparr>registros := registros ?d @ [reg], gen := snd (rnd_uniform R (-0.5) 0.5 gb)\<rparr>"
      using assms(5) reg(1) by (simp add: procesar_equipo_def)
    with ext n reg have "registros (generar_datos R CP ahora g) = registros ?d @ reg # rs"
      "errores (generar_datos R CP ahora g) = errores ?d @ es"
      "timestamp reg = fecha_tick ahora i" "id_equipo reg = id_eq"
      "length rs + length es + (3 * i + j + 1) = 168 * 3"
      by simp_all
    then show ?thesis unfolding Inr sum.case by blast
  qed
  with cuenta_antes_del_equipo [OF assms(2), of R CP ahora g i] show ?thesis by blast
qed

lemma fecha_tick_a: "fecha_tick 63900000000 0 = 63899395200"
  by (simp add: fecha_tick_def DIAS_SIMULACION_def FRECUENCIA_HORAS_def)

lemma antes_del_tick_a:
  "antes_del_tick R_contador CP_parcial 63900000000 0 0 = \<lparr>registros = [], errores = [], gen = 0\<rparr>"
  by (simp add: antes_del_tick_def)

lemma temperatura_tick_a:
  "temperatura_tick R_contador CP_parcial 63900000000 0 0 = (9.4, 1)"
  using hora_dia_a temperatura_a
  by (simp add: temperatura_tick_def fecha_tick_a antes_del_tick_a)

lemma antes_del_equipo_a:
  "antes_del_equipo R_contador CP_parcial 63900000000 0 0 0 =
     \<lparr>registros = [], errores = [], gen = 1\<rparr>"
  by (simp add: antes_del_equipo_def temperatura_tick_a antes_del_tick_a)

lemma simular_parcial_carnes:
  "simular_refrigerador CP_parcial 9.4 (-18) 0.12 0.735 16.4 = Inl ValueError"
  by (simp add: simular_refrigerador_def PropsSI_def CP_parcial_def Let_def)

lemma antes_del_equipo_b:
  "antes_del_equipo R_contador CP_parcial 63900000000 0 0 1 =
     \<lparr>registros = [], errores = [(''CAMARA_01_CARNES'', 63899395200, ValueError)], gen = 4\<rparr>"
proof -
  have "take 1 EQUIPOS = [(''CAMARA_01_CARNES'', \<lparr>t_interior = -18, flujo = 0.12\<rparr>)]"
    by (simp add: EQUIPOS_def)
  moreover have "intento R_contador CP_parcial 63899395200 ''CAMARA_01_CARNES''
      \<lparr>t_interior = -18, flujo = 0.12\<rparr> 9.4 16.4 0.735 4 = (Inl ValueError, 4)"
    using simular_parcial_carnes by (simp add: intento_Inl)
  ultimately show ?thesis
    using parametros_a
    by (simp add: antes_del_equipo_def temperatura_tick_a antes_del_tick_a fecha_tick_a
        procesar_equipo_def)
qed

lemma parametros_b: "parametros_operacion R_contador 0 4 = ((15, 0.745), 6)"
  by (simp add: parametros_operacion_def simular_evento_apertura_puerta_def rnd_uniform_def
        R_contador_def DIAS_SIMULACION_def Let_def)

lemma simular_parcial_lacteos:
  "\<exists>res. simular_refrigerador CP_parcial 9.4 4 0.08 0.745 15 = Inr res"
  by (simp add: simular_refrigerador_def PropsSI_def CP_parcial_def CP_lineal_def h_liq_def
      h_vap_def py_div_def Let_def)

theorem failure_policy_witness:
  "(\<exists>rs es.
      registros (generar_datos R_contador CP_parcial 63900000000 0) = rs \<and>
      errores (generar_datos R_contador CP_parcial 63900000000 0) =
        (''CAMARA_01_CARNES'', 63899395200, ValueError) # es \<and>
      length rs + length es + 1 = 504) \<and>
   (\<exists>reg rs es.
      registros (generar_datos R_contador CP_parcial 63900000000 0) = reg # rs \<and>
      errores (generar_datos R_contador CP_parcial 63900000000 0) =
        (''CAMARA_01_CARNES'', 63899395200, ValueError) # es \<and>
      timestamp reg = 63899395200 \<and> id_equipo reg = ''CAMARA_02_LACTEOS'' \<and>
      length rs + length es + 2 = 504)"
proof
  have e0: "EQUIPOS ! 0 = (''CAMARA_01_CARNES'', \<lparr>t_interior = -18, flujo = 0.12\<rparr>)"
    by (simp add: EQUIPOS_def)
  have p0: "parametros_operacion R_contador 0
      (gen (antes_del_equipo R_contador CP_parcial 63900000000 0 0 0)) = ((16.4, 0.735), 4)"
    using parametros_a by (simp add: antes_del_equipo_a)
  from failure_policy [OF _ _ e0 temperatura_tick_a p0]
  show "\<exists>rs es.
      registros (generar_datos R_contador CP_parcial 63900000000 0) = rs \<and>
      errores (generar_datos R_contador CP_parcial 63900000000 0) =
        (''CAMARA_01_CARNES'', 63899395200, ValueError) # es \<and>
      length rs + length es + 1 = 504"
    using simular_parcial_carnes by (simp add: antes_del_equipo_a fecha_tick_a)
next
  have e1: "EQUIPOS ! 1 = (''CAMARA_02_LACTEOS'', \<lparr>t_interior = 4, flujo = 0.08\<rparr>)"
    by (simp add: EQUIPOS_def)
  have p1: "parametros_operacion R_contador 0
      (gen (antes_del_equipo R_contador CP_parcial 63900000000 0 0 1)) = ((15, 0.745), 6)"
    unfolding antes_del_equipo_b using parametros_b by simp
  obtain res where s: "simular_refrigerador CP_parcial 9.4 4 0.08 0.745 15 = Inr res"
    using simular_parcial_lacteos by blast
  from failure_policy [OF _ _ e1 temperatura_tick_a p1, unfolded antes_del_equipo_b fecha_tick_a]
  show "\<exists>reg rs es.
      registros (generar_datos R_contador CP_parcial 63900000000 0) = reg # rs \<and>
      errores (generar_datos R_contador CP_parcial 63900000000 0) =
        (''CAMARA_01_CARNES'', 63899395200, ValueError) # es \<and>
      timestamp reg = 63899395200 \<and> id_equipo reg = ''CAMARA_02_LACTEOS'' \<and>
      length rs + length es + 2 = 504"
    using s by simp
qed

subsection \<open>Reproducibility\<close>
























end
